theory Spec2Isabelle
  imports Complex_Main
begin

section \<open>Python values and failures\<close>

text \<open>
  The ray-tracing scripts of \<^verbatim>\<open>lenstools/scripts/raytracing.py\<close> and the FastPM
  snapshot reader of \<^verbatim>\<open>lenstools/simulations/fastpm.py\<close> are embedded as HOL
  functions. Python integers are \<^typ>\<open>int\<close>, the results of \<^verbatim>\<open>len\<close> are
  \<^typ>\<open>nat\<close>, strings are \<^typ>\<open>string\<close>. Every exception the code can raise is a
  value of \<open>error\<close>; \<^verbatim>\<open>sys.exit(1)\<close> is \<open>SystemExit\<close>.
\<close>

datatype error =
    AssertionError | SystemExit | ValueError | IndexError | TypeError
  | NameError | AttributeError | KeyError | ZeroDivisionError | IOError

subsection \<open>The worker pool\<close>

text \<open>
  \<^verbatim>\<open>pool\<close> is either \<^verbatim>\<open>None\<close> or an MPI pool, of which the scripts read
  \<^verbatim>\<open>pool.size\<close> (the number of tasks besides the master), \<^verbatim>\<open>pool.rank\<close> and
  \<^verbatim>\<open>pool.is_master()\<close>.
\<close>

record pool =
  psize :: int
  prank :: int
  is_master :: bool

definition master :: "pool option \<Rightarrow> bool" where
  \<comment> \<open>\<^verbatim>\<open>(pool is None) or (pool.is_master())\<close>\<close>
  "master p = (case p of None \<Rightarrow> True | Some q \<Rightarrow> is_master q)"

subsection \<open>Which realizations a task takes care of\<close>

text \<open>
  Lines 158--168 of \<^verbatim>\<open>singleRedshift\<close> and lines 450--460 of
  \<^verbatim>\<open>simulatedCatalog\<close> are the same code up to the names of the variables:
  \<^verbatim>\<open>
  if pool is None:
      first = 0
      last = realizations
  else:
      assert realizations%(pool.size+1)==0
      realizations_per_task = realizations//(pool.size+1)
      first = realizations_per_task*pool.rank
      last = realizations_per_task*(pool.rank+1)
  \<close>
  Python's \<^verbatim>\<open>%\<close> and \<^verbatim>\<open>//\<close> on integers round towards minus infinity, as
  \<open>mod\<close> and \<open>div\<close> on \<^typ>\<open>int\<close> do, and raise on a zero divisor.
\<close>

definition task_range :: "pool option \<Rightarrow> int \<Rightarrow> error + (int \<times> int)" where
  "task_range p realizations =
     (case p of
        None \<Rightarrow> Inr (0, realizations)
      | Some q \<Rightarrow>
          if psize q + 1 = 0 then Inl ZeroDivisionError
          else if realizations mod (psize q + 1) \<noteq> 0 then Inl AssertionError
          else (let realizations_per_task = realizations div (psize q + 1)
                in Inr (realizations_per_task * prank q,
                        realizations_per_task * (prank q + 1))))"

definition py_range :: "int \<Rightarrow> int \<Rightarrow> int list" where
  \<comment> \<open>\<^verbatim>\<open>range(first,last)\<close>\<close>
  "py_range first_r last_r = [first_r..last_r - 1]"

definition task_realizations :: "pool option \<Rightarrow> int \<Rightarrow> int list" where
  \<comment> \<open>the values \<^verbatim>\<open>r\<close> of the loop \<^verbatim>\<open>for r in range(first,last)\<close>; none when the assertion fails\<close>
  "task_realizations p realizations =
     (case task_range p realizations of
        Inl e \<Rightarrow> []
      | Inr (first_r, last_r) \<Rightarrow> py_range first_r last_r)"

definition worker :: "int \<Rightarrow> int \<Rightarrow> pool option" where
  \<comment> \<open>the pool as the task of rank \<open>rk\<close> sees it, in a run of \<open>sz + 1\<close> tasks\<close>
  "worker sz rk = Some \<lparr>psize = sz, prank = rk, is_master = (rk = 0)\<rparr>"

subsection \<open>Failing computations\<close>

definition bindE :: "error + 'a \<Rightarrow> ('a \<Rightarrow> error + 'b) \<Rightarrow> error + 'b" where
  \<comment> \<open>run \<open>m\<close>; an exception of \<open>m\<close> propagates, a value is passed on\<close>
  "bindE m k = (case m of Inl e \<Rightarrow> Inl e | Inr x \<Rightarrow> k x)"

definition index :: "'a list \<Rightarrow> nat \<Rightarrow> error + 'a" where
  \<comment> \<open>\<^verbatim>\<open>xs[i]\<close> for an index that is not negative\<close>
  "index xs i = (if i < length xs then Inr (xs ! i) else Inl IndexError)"

definition py_index :: "'a list \<Rightarrow> int \<Rightarrow> error + 'a" where
  \<comment> \<open>\<^verbatim>\<open>xs[i]\<close> for any integer: a negative index counts from the end\<close>
  "py_index xs i =
     (if 0 \<le> i \<and> i < int (length xs) then Inr (xs ! nat i)
      else if i < 0 \<and> - int (length xs) \<le> i then Inr (xs ! nat (int (length xs) + i))
      else Inl IndexError)"

definition unpack2 :: "'a list \<Rightarrow> error + ('a \<times> 'a)" where
  \<comment> \<open>\<^verbatim>\<open>a,b = xs\<close>\<close>
  "unpack2 xs = (case xs of [a, b] \<Rightarrow> Inr (a, b) | _ \<Rightarrow> Inl ValueError)"

definition py_getattr :: "(string \<Rightarrow> 'a option) \<Rightarrow> string \<Rightarrow> error + 'a" where
  \<comment> \<open>\<^verbatim>\<open>getattr(module,name)\<close>, the module given by its attributes\<close>
  "py_getattr attrs name = (case attrs name of None \<Rightarrow> Inl AttributeError | Some v \<Rightarrow> Inr v)"

subsection \<open>Strings and paths\<close>

fun split_on :: "char \<Rightarrow> string \<Rightarrow> string list" where
  \<comment> \<open>\<^verbatim>\<open>s.split(c)\<close> for a separator of one character\<close>
  "split_on c [] = [[]]"
| "split_on c (x # xs) =
     (if x = c then [] # split_on c xs
      else (case split_on c xs of [] \<Rightarrow> [[x]] | p # ps \<Rightarrow> (x # p) # ps))"

definition newline :: char where
  "newline = CHR 0x0A"

definition strip_newlines :: "string \<Rightarrow> string" where
  \<comment> \<open>\<^verbatim>\<open>s.strip("\n")\<close>\<close>
  "strip_newlines s =
     rev (dropWhile (\<lambda>c. c = newline) (rev (dropWhile (\<lambda>c. c = newline) s)))"

definition basename :: "string \<Rightarrow> string" where
  \<comment> \<open>\<^verbatim>\<open>os.path.basename\<close>: what follows the last slash\<close>
  "basename p = rev (takeWhile (\<lambda>c. c \<noteq> CHR ''/'') (rev p))"

definition join2 :: "string \<Rightarrow> string \<Rightarrow> string" where
  \<comment> \<open>one step of \<^verbatim>\<open>os.path.join\<close> (posixpath)\<close>
  "join2 path b =
     (if b \<noteq> [] \<and> hd b = CHR ''/'' then b
      else if path = [] \<or> last path = CHR ''/'' then path @ b
      else path @ ''/'' @ b)"

definition path_join :: "string \<Rightarrow> string list \<Rightarrow> string" where
  \<comment> \<open>\<^verbatim>\<open>os.path.join(a,*p)\<close>\<close>
  "path_join a p = foldl join2 a p"

definition digit_char :: "nat \<Rightarrow> char" where
  "digit_char d = char_of (48 + d)"

fun nat_digits :: "nat \<Rightarrow> string" where
  "nat_digits n =
     (if n < 10 then [digit_char n] else nat_digits (n div 10) @ [digit_char (n mod 10)])"

definition str_int :: "int \<Rightarrow> string" where
  \<comment> \<open>\<^verbatim>\<open>"{0}".format(n)\<close> for an integer\<close>
  "str_int n = (if n < 0 then CHR ''-'' # nat_digits (nat (- n)) else nat_digits (nat n))"

definition zero_pad :: "nat \<Rightarrow> string \<Rightarrow> string" where
  "zero_pad w s = replicate (w - length s) CHR ''0'' @ s"

definition format_04d :: "int \<Rightarrow> string" where
  \<comment> \<open>\<^verbatim>\<open>"{0:04d}".format(n)\<close>: the sign counts in the width\<close>
  "format_04d n =
     (if n < 0 then CHR ''-'' # zero_pad 3 (nat_digits (nat (- n)))
      else zero_pad 4 (nat_digits (nat n)))"

section \<open>The FastPM header\<close>

text \<open>
  \<^verbatim>\<open>FastPMSnapshot.getHeader\<close> (fastpm.py, lines 50--80) reads four attributes of the
  bigfile header, each an array of which entry 0 is taken. An attribute that is absent
  raises \<^verbatim>\<open>KeyError\<close>, an empty one \<^verbatim>\<open>IndexError\<close>. The integer type \<open>'n\<close> of
  \<^verbatim>\<open>NC\<close> and the floating-point type \<open>'f\<close> are those of the file; only their
  operations are used, no law of arithmetic.
\<close>

record ('n, 'f) bigfile_attrs =
  attr_NC :: "'n list option"
  attr_OmegaM :: "'f list option"
  attr_BoxSize :: "'f list option"
  attr_M0 :: "'f list option"

record ('n, 'f) header =
  num_particles_file :: 'n
  num_particles_total :: 'n
  num_files :: int
  Om0 :: 'f
  Ode0 :: 'f
  w0 :: 'f
  wa :: 'f
  little_h :: 'f
  box_size :: 'f
  masses :: "'f list"

definition attr0 :: "'a list option \<Rightarrow> error + 'a" where
  \<comment> \<open>\<^verbatim>\<open>bf_header[key][0]\<close>\<close>
  "attr0 a = (case a of None \<Rightarrow> Inl KeyError | Some xs \<Rightarrow> index xs 0)"

definition getHeader ::
  "('n::power, 'f::{zero,one,minus,times,uminus,inverse,numeral}) bigfile_attrs
     \<Rightarrow> error + ('n, 'f) header" where
  "getHeader bf_header =
     bindE (attr0 (attr_NC bf_header)) (\<lambda>nc.
     bindE (attr0 (attr_OmegaM bf_header)) (\<lambda>om.
     bindE (attr0 (attr_BoxSize bf_header)) (\<lambda>bs.
     bindE (attr0 (attr_M0 bf_header)) (\<lambda>m0.
       Inr \<lparr>num_particles_file = nc ^ 3,
            num_particles_total = nc ^ 3,
            num_files = 1,
            Om0 = om,
            Ode0 = 1 - om,
            w0 = - 1,
            wa = 0,
            little_h = 72 / 100,
            box_size = bs * 1000,
            masses = [0, m0 * (72 / 100), 0, 0, 0, 0]\<rparr>))))"

section \<open>From the Jacobian to convergence, shear and omega\<close>

text \<open>
  \<^verbatim>\<open>tracer.shoot(...,kind="jacobians")\<close> returns an array of four components for each
  ray: one Jacobian \<open>(J0,J1,J2,J3)\<close> per ray, the rays of a map in row-major order.
  \<^verbatim>\<open>jacobian[k]\<close> is the array of the component \<open>k\<close> of all rays. The arithmetic is
  numpy's, element by element, on a floating-point type \<open>'f\<close> of which only the
  operations are used.
\<close>

type_synonym 'f jacobian = "('f \<times> 'f \<times> 'f \<times> 'f) list"

definition jacobian_row :: "'f jacobian \<Rightarrow> nat \<Rightarrow> 'f list" where
  \<comment> \<open>\<^verbatim>\<open>jacobian[k]\<close> for \<open>k\<close> from 0 to 3\<close>
  "jacobian_row jacobian k =
     map (\<lambda>(j0, j1, j2, j3). if k = 0 then j0 else if k = 1 then j1
                              else if k = 2 then j2 else j3) jacobian"

definition array_add :: "'f::plus list \<Rightarrow> 'f list \<Rightarrow> 'f list" where
  "array_add xs ys = map2 (+) xs ys"

definition array_sub :: "'f::minus list \<Rightarrow> 'f list \<Rightarrow> 'f list" where
  "array_sub xs ys = map2 (-) xs ys"

definition scalar_times :: "'f::times \<Rightarrow> 'f list \<Rightarrow> 'f list" where
  "scalar_times c xs = map (\<lambda>x. c * x) xs"

definition scalar_minus :: "'f::minus \<Rightarrow> 'f list \<Rightarrow> 'f list" where
  "scalar_minus c xs = map (\<lambda>x. c - x) xs"

definition convergence_data ::
  "'f::{one,plus,minus,times,inverse,numeral} jacobian \<Rightarrow> 'f list" where
  \<comment> \<open>\<^verbatim>\<open>1.0-0.5*(jacobian[0]+jacobian[3])\<close>\<close>
  "convergence_data jacobian =
     scalar_minus 1 (scalar_times (1 / 2)
       (array_add (jacobian_row jacobian 0) (jacobian_row jacobian 3)))"

definition shear1_data ::
  "'f::{one,minus,times,inverse,numeral} jacobian \<Rightarrow> 'f list" where
  \<comment> \<open>\<^verbatim>\<open>0.5*(jacobian[3]-jacobian[0])\<close>\<close>
  "shear1_data jacobian =
     scalar_times (1 / 2) (array_sub (jacobian_row jacobian 3) (jacobian_row jacobian 0))"

definition shear2_data ::
  "'f::{one,plus,times,uminus,inverse,numeral} jacobian \<Rightarrow> 'f list" where
  \<comment> \<open>\<^verbatim>\<open>-0.5*(jacobian[1]+jacobian[2])\<close>\<close>
  "shear2_data jacobian =
     scalar_times (- (1 / 2)) (array_add (jacobian_row jacobian 1) (jacobian_row jacobian 2))"

definition omega_data ::
  "'f::{one,minus,times,uminus,inverse,numeral} jacobian \<Rightarrow> 'f list" where
  \<comment> \<open>\<^verbatim>\<open>-0.5*(jacobian[2]-jacobian[1])\<close>\<close>
  "omega_data jacobian =
     scalar_times (- (1 / 2)) (array_sub (jacobian_row jacobian 2) (jacobian_row jacobian 1))"

definition ShearCatalog :: "'f list \<Rightarrow> 'f list \<Rightarrow> ('f \<times> 'f) list" where
  \<comment> \<open>the table of the columns \<^verbatim>\<open>shear1\<close>, \<^verbatim>\<open>shear2\<close>, one row per galaxy\<close>
  "ShearCatalog shear1 shear2 = zip shear1 shear2"

section \<open>Settings, handles and collaborators\<close>

text \<open>
  The settings classes of \<^verbatim>\<open>lenstools.pipeline.settings\<close> are records of the
  attributes the scripts read. \<^verbatim>\<open>MapSettings\<close> holds one plane set and one list of
  each kind of candidates, \<^verbatim>\<open>TelescopicMapSettings\<close> one per collection. An attribute
  that may be absent (\<^verbatim>\<open>hasattr\<close>) or \<^verbatim>\<open>None\<close> is an option.
\<close>

record ('ps, 'mix) common_settings =
  directory_name :: string
  override_with_local :: bool
  seed :: int
  plane_set :: 'ps
  mix_nbody_realizations :: 'mix
  mix_cut_points :: 'mix
  mix_normals :: 'mix
  format :: string

record ('f, 'u, 'ps, 'mix) map_settings = "('ps, 'mix) common_settings" +
  map_angle :: "'f \<times> 'u"
  source_redshift :: 'f
  map_resolution :: int
  lens_map_realizations :: int
  convergence :: bool
  shear :: bool
  omega :: bool
  plane_info_file :: "string option"

record 'u catalog_settings = "(string, int list) common_settings" +
  total_num_galaxies :: int
  catalog_angle_unit :: 'u
  input_files :: "string list"
  lens_catalog_realizations :: int
  realizations_per_subdirectory :: "int option"

datatype ('f, 'u) any_map_settings =
    MapSettings "('f, 'u, string, int list) map_settings"
  | TelescopicMapSettings "('f, 'u, string list, int list list) map_settings"

text \<open>
  The handles of \<^verbatim>\<open>SimulationBatch\<close> (not among the sources) are records of the
  attributes read from them; their methods are functions of the batch below.
\<close>

record 'u model =
  Mpc_over_h :: 'u

record collection =
  coll_storage :: string

record map_batch =
  mb_home :: string
  mb_storage :: string

record 'f telescopic_map_batch = map_batch +
  mapcollections :: "collection list"
  redshifts :: "'f list"

record catalog =
  cat_home :: string
  cat_storage :: string

record 'f position_catalog =
  meta_AUNIT :: "string option"
  rows :: "('f \<times> 'f \<times> 'f) list"

text \<open>
  A lens as given to \<^verbatim>\<open>tracer.addLens\<close>: the name of the plane file, the distance
  (a value and its unit) and the redshift.
\<close>

type_synonym ('f, 'u) lens = "string \<times> ('f \<times> 'u) \<times> 'f"

datatype 'f redshift_arg = ScalarZ 'f | ArrayZ "'f list"

text \<open>
  Everything outside the scripts is a parameter: the units module of astropy, the
  builtins \<^verbatim>\<open>float\<close> and \<^verbatim>\<open>int\<close>, the files, the batch, numpy's generator
  (\<open>'g\<close> is its state) and the ray tracer (\<open>'t\<close> is a tracer whose lenses are ordered).
  A collaborator that can fail returns an \<open>error\<close>.
\<close>

record ('f, 'u, 'g, 't) env =
  units :: "string \<Rightarrow> 'u option"
  to_string :: "'u \<Rightarrow> string"
  convert_unit :: "'u \<Rightarrow> 'u \<Rightarrow> 'f list \<Rightarrow> error + 'f list"
  py_float :: "string \<Rightarrow> error + 'f"
  py_int :: "string \<Rightarrow> error + int"
  format_2f :: "'f \<Rightarrow> string"
  linspace :: "'f \<Rightarrow> 'f \<Rightarrow> int \<Rightarrow> error + 'f list"
  readlines :: "string \<Rightarrow> error + string list"
  path_exists :: "string \<Rightarrow> bool"
  load_map_settings :: "string \<Rightarrow> error + ('f, 'u, string, int list) map_settings"
  load_telescopic_settings ::
    "string \<Rightarrow> error + ('f, 'u, string list, int list list) map_settings"
  load_catalog_settings :: "string \<Rightarrow> error + 'u catalog_settings"
  Catalog_read :: "string \<Rightarrow> error + 'f position_catalog"
  getModel :: "string \<Rightarrow> error + 'u model"
  getCollection :: "'u model \<Rightarrow> string \<Rightarrow> error + collection"
  getCollection_box :: "'u model \<Rightarrow> 'f \<times> 'u \<Rightarrow> string \<Rightarrow> error + collection"
  getMapSet :: "collection \<Rightarrow> string \<Rightarrow> error + map_batch"
  getTelescopicMapSet :: "'u model \<Rightarrow> string \<Rightarrow> error + 'f telescopic_map_batch"
  getCatalog :: "collection \<Rightarrow> string \<Rightarrow> error + catalog"
  random_seed :: "int \<Rightarrow> error + 'g"
  random_randint :: "'g \<Rightarrow> int \<Rightarrow> int \<times> 'g"
  reorderLenses :: "'g \<Rightarrow> ('f, 'u) lens list \<Rightarrow> error + 't \<times> 'g"
  shoot :: "'t \<Rightarrow> ('f list \<times> 'f list) \<times> 'u \<Rightarrow> 'f redshift_arg \<Rightarrow> error + 'f jacobian"

section \<open>Effects\<close>

text \<open>
  What a run does to the world is recorded in the order it happens: the calls of
  numpy's generator, the calls of the ray tracer, and what is written. The state of
  numpy's global generator is part of the world, also before the script seeds it.
\<close>

datatype ('f, 'u) event =
    RandomSeed int
  | RandInt int
  | RandIntArray int int int
  | CatalogCopy string
  | MakeDir string
  | AddLens string "'f \<times> 'u" 'f
  | ReorderLenses
  | Shoot
  | SaveConvergence string "'f list"
  | SaveShear string "'f list" "'f list"
  | SaveOmega string "'f list"
  | SaveShearCatalog string "('f \<times> 'f) list"

record ('g, 'e) world =
  rng :: 'g
  trace :: "'e list"

type_synonym ('g, 'e, 'a) prog = "('g, 'e) world \<Rightarrow> (error + 'a) \<times> ('g, 'e) world"

definition ret :: "'a \<Rightarrow> ('g, 'e, 'a) prog" where
  "ret x = (\<lambda>w. (Inr x, w))"

definition throw :: "error \<Rightarrow> ('g, 'e, 'a) prog" where
  "throw e = (\<lambda>w. (Inl e, w))"

definition lift :: "error + 'a \<Rightarrow> ('g, 'e, 'a) prog" where
  "lift r = (\<lambda>w. (r, w))"

definition bindP :: "('g, 'e, 'a) prog \<Rightarrow> ('a \<Rightarrow> ('g, 'e, 'b) prog) \<Rightarrow> ('g, 'e, 'b) prog" where
  "bindP m k = (\<lambda>w. case m w of (Inl e, w') \<Rightarrow> (Inl e, w') | (Inr x, w') \<Rightarrow> k x w')"

definition emit :: "'e \<Rightarrow> ('g, 'e, unit) prog" where
  "emit e = (\<lambda>w. (Inr (), w\<lparr>trace := trace w @ [e]\<rparr>))"

definition emit_all :: "'e list \<Rightarrow> ('g, 'e, unit) prog" where
  "emit_all es = (\<lambda>w. (Inr (), w\<lparr>trace := trace w @ es\<rparr>))"

definition py_assert :: "bool \<Rightarrow> ('g, 'e, unit) prog" where
  "py_assert b = (if b then ret () else throw AssertionError)"

subsection \<open>numpy's generator\<close>

definition np_random_seed ::
  "('f, 'u, 'g, 't) env \<Rightarrow> int \<Rightarrow> ('g, ('f, 'u) event, unit) prog" where
  \<comment> \<open>\<^verbatim>\<open>np.random.seed(n)\<close>: the new state depends on \<open>n\<close> alone\<close>
  "np_random_seed E n =
     bindP (emit (RandomSeed n)) (\<lambda>_.
     bindP (lift (random_seed E n)) (\<lambda>g w. (Inr (), w\<lparr>rng := g\<rparr>)))"

definition np_random_randint ::
  "('f, 'u, 'g, 't) env \<Rightarrow> int \<Rightarrow> ('g, ('f, 'u) event, int) prog" where
  \<comment> \<open>\<^verbatim>\<open>np.random.randint(low=0,high=high)\<close>; numpy raises when \<open>high\<close> is not above \<open>low\<close>\<close>
  "np_random_randint E high =
     bindP (emit (RandInt high)) (\<lambda>_.
       if high \<le> 0 then throw ValueError
       else (\<lambda>w. case random_randint E (rng w) high of (v, g) \<Rightarrow> (Inr v, w\<lparr>rng := g\<rparr>)))"

primrec draw_list :: "('f, 'u, 'g, 't) env \<Rightarrow> int \<Rightarrow> nat \<Rightarrow> 'g \<Rightarrow> int list \<times> 'g" where
  "draw_list E high 0 g = ([], g)"
| "draw_list E high (Suc n) g =
     (case random_randint E g high of (v, g') \<Rightarrow>
        (case draw_list E high n g' of (vs, g'') \<Rightarrow> (v # vs, g'')))"

primrec draw_rows :: "('f, 'u, 'g, 't) env \<Rightarrow> int \<Rightarrow> nat \<Rightarrow> nat \<Rightarrow> 'g \<Rightarrow> int list list \<times> 'g" where
  "draw_rows E high 0 S g = ([], g)"
| "draw_rows E high (Suc R) S g =
     (case draw_list E high S g of (row, g') \<Rightarrow>
        (case draw_rows E high R S g' of (rws, g'') \<Rightarrow> (row # rws, g'')))"

definition np_random_randint_array ::
  "('f, 'u, 'g, 't) env \<Rightarrow> int \<Rightarrow> int \<Rightarrow> int \<Rightarrow> ('g, ('f, 'u) event, int list list) prog" where
  \<comment> \<open>\<^verbatim>\<open>np.random.randint(low=0,high=high,size=(R,S))\<close>: \<open>R * S\<close> draws, row by row\<close>
  "np_random_randint_array E high R S =
     bindP (emit (RandIntArray high R S)) (\<lambda>_.
       if high \<le> 0 \<or> R < 0 \<or> S < 0 then throw ValueError
       else (\<lambda>w. case draw_rows E high (nat R) (nat S) (rng w) of
                    (rws, g) \<Rightarrow> (Inr rws, w\<lparr>rng := g\<rparr>)))"

subsection \<open>The ray tracer\<close>

definition tracer_reorderLenses ::
  "('f, 'u, 'g, 't) env \<Rightarrow> ('f, 'u) lens list \<Rightarrow> ('g, ('f, 'u) event, 't) prog" where
  \<comment> \<open>\<^verbatim>\<open>tracer.reorderLenses()\<close> rolls the planes with draws of numpy's generator\<close>
  "tracer_reorderLenses E lenses =
     bindP (emit ReorderLenses) (\<lambda>_ w.
       case reorderLenses E (rng w) lenses of
         Inl e \<Rightarrow> (Inl e, w)
       | Inr (t, g) \<Rightarrow> (Inr t, w\<lparr>rng := g\<rparr>))"

definition tracer_shoot ::
  "('f, 'u, 'g, 't) env \<Rightarrow> 't \<Rightarrow> ('f list \<times> 'f list) \<times> 'u \<Rightarrow> 'f redshift_arg
     \<Rightarrow> ('g, ('f, 'u) event, 'f jacobian) prog" where
  \<comment> \<open>\<^verbatim>\<open>tracer.shoot(pos,z=z,kind="jacobians")\<close>\<close>
  "tracer_shoot E t pos z = bindP (emit Shoot) (\<lambda>_. lift (shoot E t pos z))"

section \<open>The plane summary\<close>

text \<open>
  Lines 224--235 of \<^verbatim>\<open>singleRedshift\<close> and 512--523 of \<^verbatim>\<open>simulatedCatalog\<close>, the
  same code: a line of \<^verbatim>\<open>info.txt\<close> is split into the number of the snapshot, the
  distance and the redshift.
  \<^verbatim>\<open>
  line = line.split(",")
  snapshot_number = int(line[0].split("=")[1])
  distance,unit = line[1].split("=")[1].split(" ")
  if unit=="Mpc/h":
      distance = float(distance)*model.Mpc_over_h
  else:
      distance = float(distance)*getattr(u,"unit")
  lens_redshift = float(line[2].split("=")[1])
  \<close>
\<close>

definition lens_specification ::
  "('f, 'u, 'g, 't) env \<Rightarrow> 'u model \<Rightarrow> string \<Rightarrow> error + (int \<times> ('f \<times> 'u) \<times> 'f)" where
  "lens_specification E model line =
     (let fields = split_on CHR '','' line in
      bindE (index fields 0) (\<lambda>f0.
      bindE (index (split_on CHR ''='' f0) 1) (\<lambda>v0.
      bindE (py_int E v0) (\<lambda>snapshot_number.
      bindE (index fields 1) (\<lambda>f1.
      bindE (index (split_on CHR ''='' f1) 1) (\<lambda>v1.
      bindE (unpack2 (split_on CHR '' '' v1)) (\<lambda>(distance, unit_name).
      bindE (if unit_name = ''Mpc/h''
             then bindE (py_float E distance) (\<lambda>d. Inr (d, Mpc_over_h model))
             else bindE (py_float E distance) (\<lambda>d.
                  bindE (py_getattr (units E) ''unit'') (\<lambda>un. Inr (d, un)))) (\<lambda>distance.
      bindE (index fields 2) (\<lambda>f2.
      bindE (index (split_on CHR ''='' f2) 1) (\<lambda>v2.
      bindE (py_float E v2) (\<lambda>lens_redshift.
        Inr (snapshot_number, distance, lens_redshift))))))))))))"

definition plane_file :: "int \<Rightarrow> int \<Rightarrow> int \<Rightarrow> string" where
  \<comment> \<open>\<^verbatim>\<open>"snap{0}_potentialPlane{1}_normal{2}.fits".format(snapshot_number,cut,normal)\<close>\<close>
  "plane_file snapshot_number cut_point normal =
     ''snap'' @ str_int snapshot_number @ ''_potentialPlane'' @ str_int cut_point
       @ ''_normal'' @ str_int normal @ ''.fits''"

section \<open>Galaxy catalogs\<close>

definition reduce_add :: "nat list \<Rightarrow> error + nat" where
  \<comment> \<open>\<^verbatim>\<open>reduce(add,xs)\<close>, which raises on an empty list\<close>
  "reduce_add xs = (case xs of [] \<Rightarrow> Inl TypeError | x # r \<Rightarrow> Inr (foldl (+) x r))"

definition galaxies_before_of :: "nat list \<Rightarrow> error + nat" where
  \<comment> \<open>\<^verbatim>\<open>try: galaxies_before = reduce(add,xs)\<close>, \<^verbatim>\<open>except TypeError: galaxies_before = 0\<close>\<close>
  "galaxies_before_of xs =
     (case reduce_add xs of
        Inl e \<Rightarrow> if e = TypeError then Inr 0 else Inl e
      | Inr v \<Rightarrow> Inr v)"

definition py_slice :: "'a list \<Rightarrow> nat \<Rightarrow> nat \<Rightarrow> 'a list" where
  \<comment> \<open>\<^verbatim>\<open>xs[a:b]\<close> for bounds that are not negative\<close>
  "py_slice xs a b = take (b - a) (drop a xs)"

definition slice_assign :: "'a list \<Rightarrow> nat \<Rightarrow> nat \<Rightarrow> 'a list \<Rightarrow> error + 'a list" where
  \<comment> \<open>\<^verbatim>\<open>arr[a:b] = vals\<close> on a numpy array, for bounds that are not negative: the slice
      is cut at the end of the array and is empty when \<open>b\<close> is below \<open>a\<close>; the values
      must be as many as the slice holds, or one value that is repeated\<close>
  "slice_assign arr a b vals =
     (let lo = min a (length arr); hi = max lo (min b (length arr)); n = hi - lo in
      if length vals = n then Inr (take lo arr @ vals @ drop hi arr)
      else if length vals = 1 then Inr (take lo arr @ replicate n (hd vals) @ drop hi arr)
      else Inl ValueError)"

definition to_own_unit :: "('f, 'u, 'g, 't) env \<Rightarrow> 'u \<Rightarrow> 'u \<Rightarrow> 'f list \<Rightarrow> error + 'f list" where
  \<comment> \<open>values in the unit \<open>un\<close> stored in an array of the unit \<open>own\<close>\<close>
  "to_own_unit E un own vals = (if un = own then Inr vals else convert_unit E un own vals)"

type_synonym 'f galaxies = "nat list \<times> 'f list \<times> 'f list \<times> 'f list"

definition read_positions ::
  "('f, 'u, 'g, 't) env \<Rightarrow> pool option \<Rightarrow> 'u catalog_settings \<Rightarrow> string \<Rightarrow> string
     \<Rightarrow> 'f galaxies \<Rightarrow> ('g, ('f, 'u) event, 'f galaxies) prog" where
  \<comment> \<open>the body of the loop of lines 386--415; the state is \<^verbatim>\<open>galaxies_in_catalog\<close>, the two
      rows of \<^verbatim>\<open>initial_positions\<close> and \<^verbatim>\<open>galaxy_redshift\<close>\<close>
  "read_positions E p settings catalog_save_path galaxy_position_file st =
     (case st of (galaxies_in_catalog, xs, ys, zs) \<Rightarrow>
      bindP (lift (galaxies_before_of galaxies_in_catalog)) (\<lambda>galaxies_before.
      bindP (lift (Catalog_read E galaxy_position_file)) (\<lambda>position_catalog.
      bindP (lift (case meta_AUNIT position_catalog of
                     None \<Rightarrow> Inl KeyError | Some a \<Rightarrow> Inr a)) (\<lambda>aunit.
      bindP (py_assert (aunit = to_string E (catalog_angle_unit settings))) (\<lambda>_.
      bindP (if master p
             then emit (CatalogCopy (path_join catalog_save_path [basename galaxy_position_file]))
             else ret ()) (\<lambda>_.
      let n = length (rows position_catalog);
          stop = galaxies_before + n;
          own = catalog_angle_unit settings in
      bindP (lift (py_getattr (units E) aunit)) (\<lambda>un.
      bindP (lift (to_own_unit E un own (map (\<lambda>(x, y, z). x) (rows position_catalog)))) (\<lambda>xv.
      bindP (lift (slice_assign xs galaxies_before stop xv)) (\<lambda>xs'.
      bindP (lift (to_own_unit E un own (map (\<lambda>(x, y, z). y) (rows position_catalog)))) (\<lambda>yv.
      bindP (lift (slice_assign ys galaxies_before stop yv)) (\<lambda>ys'.
      bindP (lift (slice_assign zs galaxies_before stop
                     (map (\<lambda>(x, y, z). z) (rows position_catalog)))) (\<lambda>zs'.
        ret (galaxies_in_catalog @ [n], xs', ys', zs')))))))))))))"

primrec read_all_positions ::
  "('f, 'u, 'g, 't) env \<Rightarrow> pool option \<Rightarrow> 'u catalog_settings \<Rightarrow> string \<Rightarrow> string list
     \<Rightarrow> 'f galaxies \<Rightarrow> ('g, ('f, 'u) event, 'f galaxies) prog" where
  "read_all_positions E p settings catalog_save_path [] st = ret st"
| "read_all_positions E p settings catalog_save_path (galaxy_position_file # files) st =
     bindP (read_positions E p settings catalog_save_path galaxy_position_file st)
       (\<lambda>st'. read_all_positions E p settings catalog_save_path files st')"

definition load_galaxies ::
  "('f::zero, 'u, 'g, 't) env \<Rightarrow> pool option \<Rightarrow> 'u catalog_settings \<Rightarrow> string
     \<Rightarrow> ('g, ('f, 'u) event, 'f galaxies) prog" where
  \<comment> \<open>lines 376--418: the arrays are allocated for \<^verbatim>\<open>total_num_galaxies\<close>, filled from
      the input files, and the number of galaxies is checked\<close>
  "load_galaxies E p settings catalog_save_path =
     (let total_num_galaxies = total_num_galaxies settings in
      if total_num_galaxies < 0 then throw ValueError
      else
        bindP (read_all_positions E p settings catalog_save_path (input_files settings)
                 ([], replicate (nat total_num_galaxies) 0,
                      replicate (nat total_num_galaxies) 0,
                      replicate (nat total_num_galaxies) 0)) (\<lambda>st.
        bindP (lift (reduce_add (fst st))) (\<lambda>total.
        bindP (py_assert (int total = total_num_galaxies)) (\<lambda>_. ret st))))"

section \<open>Names of the catalogs that are written\<close>

definition subdirectories :: "int \<Rightarrow> int \<Rightarrow> error + string list" where
  \<comment> \<open>\<^verbatim>\<open>_subdirectories(num_realizations,realizations_in_subdir)\<close>, lines 33--44\<close>
  "subdirectories num_realizations realizations_in_subdir =
     (if realizations_in_subdir = 0 then Inl ZeroDivisionError
      else if num_realizations mod realizations_in_subdir \<noteq> 0 then Inl AssertionError
      else if num_realizations = realizations_in_subdir then Inr []
      else Inr (map (\<lambda>c. str_int (c * realizations_in_subdir + 1) @ ''-''
                          @ str_int ((c + 1) * realizations_in_subdir))
                 (py_range 0 (num_realizations div realizations_in_subdir))))"

definition shear_catalog_name :: "string \<Rightarrow> int \<Rightarrow> string \<Rightarrow> string" where
  \<comment> \<open>\<^verbatim>\<open>"WLshear_"+os.path.basename(galaxy_position_file.split(".")[0])
        +"_{0:04d}r.{1}".format(r+1,settings.format)\<close>\<close>
  "shear_catalog_name galaxy_position_file r fmt =
     ''WLshear_'' @ basename (hd (split_on CHR ''.'' galaxy_position_file))
       @ ''_'' @ format_04d (r + 1) @ ''r.'' @ fmt"

definition shear_catalog_savename ::
  "string \<Rightarrow> string list \<Rightarrow> int \<Rightarrow> int \<Rightarrow> string \<Rightarrow> string \<Rightarrow> error + string" where
  \<comment> \<open>lines 562--565\<close>
  "shear_catalog_savename catalog_save_path catalog_subdirectory realizations_in_subdir r
       galaxy_position_file fmt =
     (if length catalog_subdirectory \<noteq> 0
      then (if realizations_in_subdir = 0 then Inl ZeroDivisionError
            else bindE (py_index catalog_subdirectory (r div realizations_in_subdir)) (\<lambda>d.
                 Inr (path_join catalog_save_path
                        [d, shear_catalog_name galaxy_position_file r fmt])))
      else Inr (path_join catalog_save_path [shear_catalog_name galaxy_position_file r fmt]))"

definition catalog_slice :: "nat list \<Rightarrow> 'a list \<Rightarrow> nat \<Rightarrow> error + 'a list" where
  \<comment> \<open>\<^verbatim>\<open>shear_catalog[galaxies_before:galaxies_before+galaxies_in_catalog[n]]\<close> with
      \<^verbatim>\<open>galaxies_before\<close> from \<^verbatim>\<open>galaxies_in_catalog[:n]\<close>, lines 556--568\<close>
  "catalog_slice galaxies_in_catalog shear_catalog n =
     bindE (galaxies_before_of (take n galaxies_in_catalog)) (\<lambda>galaxies_before.
     bindE (index galaxies_in_catalog n) (\<lambda>count.
       Inr (py_slice shear_catalog galaxies_before (galaxies_before + count))))"

section \<open>Galaxy catalog ray tracing\<close>

text \<open>
  \<^verbatim>\<open>simulatedCatalog(pool,batch,settings,id)\<close>, lines 327--581. The local variables
  that the loop over the realizations reads are gathered in a record. Logging, timing and
  the barriers are left out.
\<close>

record ('f, 'u) catalog_run =
  run_model :: "'u model"
  run_collection :: collection
  run_settings :: "'u catalog_settings"
  catalog_save_path :: string
  run_galaxies :: "'f galaxies"
  catalog_subdirectory :: "string list"
  realizations_in_subdir :: int
  info_file :: string
  randomizer :: "int list list list"

definition catalog_plane_path :: "collection \<Rightarrow> 'u catalog_settings \<Rightarrow> int \<Rightarrow> string" where
  \<comment> \<open>\<^verbatim>\<open>os.path.join(collection.storage,"ic{0}",settings.plane_set).format(n)\<close>, for a
      storage and a plane set without braces\<close>
  "catalog_plane_path coll settings n =
     path_join (coll_storage coll) [''ic'' @ str_int n, plane_set settings]"

definition zeros3 :: "int \<Rightarrow> int \<Rightarrow> error + int list list list" where
  \<comment> \<open>\<^verbatim>\<open>np.zeros((R,S,3),dtype=np.int)\<close>\<close>
  "zeros3 R S =
     (if R < 0 \<or> S < 0 then Inl ValueError
      else Inr (replicate (nat R) (replicate (nat S) [0, 0, 0])))"

definition set_component :: "nat \<Rightarrow> int list list \<Rightarrow> int list list list \<Rightarrow> int list list list" where
  \<comment> \<open>\<^verbatim>\<open>randomizer[:,:,k] = A\<close> for \<open>A\<close> of the shape \<open>(R,S)\<close>\<close>
  "set_component k A rz = map2 (\<lambda>row arow. map2 (\<lambda>entry v. entry[k := v]) row arow) rz A"

definition randomizer_at :: "int list list list \<Rightarrow> int \<Rightarrow> nat \<Rightarrow> nat \<Rightarrow> error + int" where
  \<comment> \<open>\<^verbatim>\<open>randomizer[r,s,k]\<close>\<close>
  "randomizer_at rz r s k =
     bindE (py_index rz r) (\<lambda>row. bindE (index row s) (\<lambda>entry. index entry k))"

definition catalog_plane_name ::
  "('f, 'u) catalog_run \<Rightarrow> int \<Rightarrow> nat \<Rightarrow> int \<Rightarrow> error + string" where
  \<comment> \<open>line 527, the name of the plane of the snapshot of line \<open>s\<close> in the realization \<open>r\<close>\<close>
  "catalog_plane_name ctx r s snapshot_number =
     bindE (randomizer_at (randomizer ctx) r s 0) (\<lambda>i0.
     bindE (py_index (mix_nbody_realizations (run_settings ctx)) i0) (\<lambda>nbody.
     bindE (randomizer_at (randomizer ctx) r s 1) (\<lambda>i1.
     bindE (py_index (mix_cut_points (run_settings ctx)) i1) (\<lambda>cut_point.
     bindE (randomizer_at (randomizer ctx) r s 2) (\<lambda>i2.
     bindE (py_index (mix_normals (run_settings ctx)) i2) (\<lambda>normal.
       Inr (path_join (catalog_plane_path (run_collection ctx) (run_settings ctx) nbody)
              [plane_file snapshot_number cut_point normal])))))))"

fun catalog_add_lenses ::
  "('f, 'u, 'g, 't) env \<Rightarrow> ('f, 'u) catalog_run \<Rightarrow> int \<Rightarrow> nat \<Rightarrow> string list
     \<Rightarrow> ('g, ('f, 'u) event, ('f, 'u) lens list) prog" where
  \<comment> \<open>the loop of lines 503--528 over the lines of \<^verbatim>\<open>info.txt\<close>; \<open>s\<close> counts them\<close>
  "catalog_add_lenses E ctx r s [] = ret []"
| "catalog_add_lenses E ctx r s (l # ls) =
     (let line = strip_newlines l in
      if line = [] then ret []
      else
        bindP (lift (lens_specification E (run_model ctx) line))
          (\<lambda>(snapshot_number, distance, lens_redshift).
        bindP (lift (catalog_plane_name ctx r s snapshot_number)) (\<lambda>plane_name.
        bindP (emit (AddLens plane_name distance lens_redshift)) (\<lambda>_.
        bindP (catalog_add_lenses E ctx r (Suc s) ls) (\<lambda>lenses.
          ret ((plane_name, distance, lens_redshift) # lenses))))))"

primrec save_shear_catalogs ::
  "('f, 'u) catalog_run \<Rightarrow> int \<Rightarrow> ('f \<times> 'f) list \<Rightarrow> (nat \<times> string) list
     \<Rightarrow> ('g, ('f, 'u) event, unit) prog" where
  \<comment> \<open>the loop of lines 554--568 over \<^verbatim>\<open>enumerate(settings.input_files)\<close>\<close>
  "save_shear_catalogs ctx r shear_catalog [] = ret ()"
| "save_shear_catalogs ctx r shear_catalog (nf # files) =
     bindP (lift (shear_catalog_savename (catalog_save_path ctx) (catalog_subdirectory ctx)
                    (realizations_in_subdir ctx) r (snd nf) (format (run_settings ctx))))
       (\<lambda>shear_catalog_savename.
     bindP (lift (catalog_slice (fst (run_galaxies ctx)) shear_catalog (fst nf))) (\<lambda>part.
     bindP (emit (SaveShearCatalog shear_catalog_savename part)) (\<lambda>_.
       save_shear_catalogs ctx r shear_catalog files)))"

definition catalog_realization ::
  "('f::{one,plus,minus,times,uminus,inverse,numeral}, 'u, 'g, 't) env
     \<Rightarrow> ('f, 'u) catalog_run \<Rightarrow> int \<Rightarrow> ('g, ('f, 'u) event, unit) prog" where
  \<comment> \<open>the body of the loop of lines 487--572\<close>
  "catalog_realization E ctx r =
     (case run_galaxies ctx of (galaxies_in_catalog, xs, ys, zs) \<Rightarrow>
      bindP (lift (readlines E (info_file ctx))) (\<lambda>lines.
      bindP (catalog_add_lenses E ctx r 0 lines) (\<lambda>lenses.
      bindP (tracer_reorderLenses E lenses) (\<lambda>tracer.
      bindP (tracer_shoot E tracer ((xs, ys), catalog_angle_unit (run_settings ctx))
               (ArrayZ zs)) (\<lambda>jacobian.
        save_shear_catalogs ctx r
          (ShearCatalog (shear1_data jacobian) (shear2_data jacobian))
          (List.enumerate 0 (input_files (run_settings ctx))))))))"

primrec catalog_loop ::
  "('f::{one,plus,minus,times,uminus,inverse,numeral}, 'u, 'g, 't) env
     \<Rightarrow> ('f, 'u) catalog_run \<Rightarrow> int list \<Rightarrow> ('g, ('f, 'u) event, unit) prog" where
  "catalog_loop E ctx [] = ret ()"
| "catalog_loop E ctx (r # rs) =
     bindP (catalog_realization E ctx r) (\<lambda>_. catalog_loop E ctx rs)"

definition worker_seed :: "pool option \<Rightarrow> int \<Rightarrow> int" where
  \<comment> \<open>\<^verbatim>\<open>settings.seed + pool.rank\<close>, or \<^verbatim>\<open>settings.seed\<close> without a pool\<close>
  "worker_seed p sd = (case p of Some q \<Rightarrow> sd + prank q | None \<Rightarrow> sd)"

definition catalog_handles ::
  "('f, 'u, 'g, 't) env \<Rightarrow> 'u catalog_settings \<Rightarrow> string
     \<Rightarrow> error + ('u model \<times> collection \<times> catalog \<times> 'u catalog_settings)" where
  \<comment> \<open>lines 335--358: the model, the collection, the catalog and the settings in force\<close>
  "catalog_handles E settings0 ident =
     bindE (unpack2 (split_on CHR ''|'' ident)) (\<lambda>(cosmo_id, geometry_id).
     bindE (getModel E cosmo_id) (\<lambda>model.
     bindE (unpack2 (split_on CHR ''b'' geometry_id)) (\<lambda>(nside, box).
     bindE (py_float E box) (\<lambda>bs.
     bindE (getCollection_box E model (bs, Mpc_over_h model) nside) (\<lambda>coll.
     bindE (getCatalog E coll (directory_name settings0)) (\<lambda>cat.
     bindE (if override_with_local settings0
            then load_catalog_settings E (path_join (cat_home cat) [''settings.p''])
            else Inr settings0) (\<lambda>settings.
       Inr (model, coll, cat, settings))))))))"

definition catalog_randomizer ::
  "('f, 'u, 'g, 't) env \<Rightarrow> 'u catalog_settings \<Rightarrow> int \<Rightarrow> int
     \<Rightarrow> ('g, ('f, 'u) event, int list list list) prog" where
  \<comment> \<open>lines 475--478\<close>
  "catalog_randomizer E settings catalog_realizations num_snapshots =
     bindP (lift (zeros3 catalog_realizations num_snapshots)) (\<lambda>rz.
     bindP (np_random_randint_array E (int (length (mix_nbody_realizations settings)))
              catalog_realizations num_snapshots) (\<lambda>A0.
     bindP (np_random_randint_array E (int (length (mix_cut_points settings)))
              catalog_realizations num_snapshots) (\<lambda>A1.
     bindP (np_random_randint_array E (int (length (mix_normals settings)))
              catalog_realizations num_snapshots) (\<lambda>A2.
       ret (set_component 2 A2 (set_component 1 A1 (set_component 0 A0 rz)))))))"

definition catalog_prepare ::
  "('f::zero, 'u, 'g, 't) env \<Rightarrow> pool option \<Rightarrow> 'u model \<Rightarrow> collection \<Rightarrow> catalog
     \<Rightarrow> 'u catalog_settings
     \<Rightarrow> ('g, ('f, 'u) event, ('f, 'u) catalog_run \<times> int \<times> int) prog" where
  \<comment> \<open>lines 370--478, after the generator is seeded and before the loop over the
      realizations\<close>
  "catalog_prepare E p model coll cat settings =
     bindP (load_galaxies E p settings (cat_storage cat)) (\<lambda>galaxies.
     let catalog_realizations = lens_catalog_realizations settings;
         in_subdir = (case realizations_per_subdirectory settings of
                        Some k \<Rightarrow> k | None \<Rightarrow> catalog_realizations) in
     bindP (lift (subdirectories catalog_realizations in_subdir)) (\<lambda>subdirs.
     bindP (if master p
            then emit_all (map MakeDir (filter (\<lambda>d. \<not> path_exists E d)
                             (map (\<lambda>d. path_join (cat_storage cat) [d]) subdirs)))
            else ret ()) (\<lambda>_.
     bindP (lift (task_range p catalog_realizations)) (\<lambda>(first_realization, last_realization).
     bindP (lift (index (mix_nbody_realizations settings) 0)) (\<lambda>n0.
     let info = path_join (catalog_plane_path coll settings n0) [''info.txt''] in
     bindP (lift (readlines E info)) (\<lambda>lines.
     bindP (catalog_randomizer E settings catalog_realizations (int (length lines))) (\<lambda>rz.
       ret (\<lparr>run_model = model, run_collection = coll, run_settings = settings,
             catalog_save_path = cat_storage cat, run_galaxies = galaxies,
             catalog_subdirectory = subdirs, realizations_in_subdir = in_subdir,
             info_file = info, randomizer = rz\<rparr>,
            first_realization, last_realization))))))))"

definition catalog_setup ::
  "('f::zero, 'u, 'g, 't) env \<Rightarrow> pool option \<Rightarrow> 'u catalog_settings \<Rightarrow> string
     \<Rightarrow> ('g, ('f, 'u) event, ('f, 'u) catalog_run \<times> int \<times> int) prog" where
  \<comment> \<open>lines 335--478: all that comes before the loop over the realizations\<close>
  "catalog_setup E p settings0 ident =
     bindP (lift (catalog_handles E settings0 ident)) (\<lambda>(model, coll, cat, settings).
     bindP (np_random_seed E (worker_seed p (seed settings))) (\<lambda>_.
       catalog_prepare E p model coll cat settings))"

definition simulatedCatalog ::
  "('f::{zero,one,plus,minus,times,uminus,inverse,numeral}, 'u, 'g, 't) env
     \<Rightarrow> pool option \<Rightarrow> 'u catalog_settings \<Rightarrow> string \<Rightarrow> ('g, ('f, 'u) event, unit) prog" where
  "simulatedCatalog E p settings ident =
     bindP (catalog_setup E p settings ident) (\<lambda>(ctx, first_realization, last_realization).
       catalog_loop E ctx (py_range first_realization last_realization))"

section \<open>Single redshift ray tracing\<close>

text \<open>
  \<^verbatim>\<open>singleRedshift(pool,batch,settings,id)\<close>, lines 50--317. An identifier of two
  parts runs on one collection with \<^verbatim>\<open>MapSettings\<close>, an identifier of one part on a
  telescopic map set with \<^verbatim>\<open>TelescopicMapSettings\<close>; settings of the other class fail
  the assertions of lines 60 and 75. The pickled settings that may override them are of
  the class of the run. Lines 126--132 wrap the attributes of \<^verbatim>\<open>MapSettings\<close> in tuples
  of length one, after which both kinds of run read per-collection lists.
\<close>

definition single_collection ::
  "('f, 'u, string, int list) map_settings
     \<Rightarrow> ('f, 'u, string list, int list list) map_settings" where
  "single_collection ms =
     \<lparr>directory_name = directory_name ms,
      override_with_local = override_with_local ms,
      seed = seed ms,
      plane_set = [plane_set ms],
      mix_nbody_realizations = [mix_nbody_realizations ms],
      mix_cut_points = [mix_cut_points ms],
      mix_normals = [mix_normals ms],
      format = format ms,
      map_angle = map_angle ms,
      source_redshift = source_redshift ms,
      map_resolution = map_resolution ms,
      lens_map_realizations = lens_map_realizations ms,
      convergence = convergence ms,
      shear = shear ms,
      omega = omega ms,
      plane_info_file = plane_info_file ms\<rparr>"

record ('f, 'u) map_run =
  map_model :: "'u model"
  map_collection :: "collection list"
  cut_redshifts :: "'f list"
  map_st :: "('f, 'u, string list, int list list) map_settings"
  info_filename :: string
  save_path :: string

definition map_plane_path :: "string \<Rightarrow> int \<Rightarrow> string \<Rightarrow> string" where
  \<comment> \<open>\<^verbatim>\<open>os.path.join("{0}","ic{1}","{2}").format(storage,n,plane_set)\<close>\<close>
  "map_plane_path storage n pset = storage @ ''/ic'' @ str_int n @ ''/'' @ pset"

definition select_collection :: "'f::ord list \<Rightarrow> 'f \<Rightarrow> nat option \<Rightarrow> nat option" where
  \<comment> \<open>lines 238--240: \<^verbatim>\<open>c\<close> keeps its value when no redshift of the cuts is below the lens\<close>
  "select_collection cuts lens_redshift c =
     foldl (\<lambda>c (n, z). if z \<le> lens_redshift then Some n else c) c (List.enumerate 0 cuts)"

fun map_add_lenses ::
  "('f::ord, 'u, 'g, 't) env \<Rightarrow> ('f, 'u) map_run \<Rightarrow> string list \<Rightarrow> nat option
     \<Rightarrow> ('g, ('f, 'u) event, ('f, 'u) lens list \<times> nat option) prog" where
  \<comment> \<open>the loop of lines 215--253 over the lines of the plane summary; the state \<open>c\<close> is the
      variable \<^verbatim>\<open>c\<close>, unbound before its first assignment\<close>
  "map_add_lenses E ctx [] c = ret ([], c)"
| "map_add_lenses E ctx (l # ls) c =
     (let line = strip_newlines l in
      if line = [] then ret ([], c)
      else
        bindP (lift (lens_specification E (map_model ctx) line))
          (\<lambda>(snapshot_number, distance, lens_redshift).
        bindP (case select_collection (cut_redshifts ctx) lens_redshift c of
                 None \<Rightarrow> throw NameError | Some n \<Rightarrow> ret n) (\<lambda>n.
        bindP (lift (index (mix_nbody_realizations (map_st ctx)) n)) (\<lambda>nbody_realizations.
        bindP (np_random_randint E (int (length nbody_realizations))) (\<lambda>nbody.
        bindP (lift (index (mix_cut_points (map_st ctx)) n)) (\<lambda>cut_points.
        bindP (np_random_randint E (int (length cut_points))) (\<lambda>cut_point.
        bindP (lift (index (mix_normals (map_st ctx)) n)) (\<lambda>normals.
        bindP (np_random_randint E (int (length normals))) (\<lambda>normal.
        bindP (lift (py_index nbody_realizations nbody)) (\<lambda>nb.
        bindP (lift (py_index cut_points cut_point)) (\<lambda>cp.
        bindP (lift (py_index normals normal)) (\<lambda>nm.
        bindP (lift (index (map_collection ctx) n)) (\<lambda>coll.
        bindP (lift (index (plane_set (map_st ctx)) n)) (\<lambda>pset.
        let plane_name = path_join (map_plane_path (coll_storage coll) nb pset)
                           [plane_file snapshot_number cp nm] in
        bindP (emit (AddLens plane_name distance lens_redshift)) (\<lambda>_.
        bindP (map_add_lenses E ctx ls (Some n)) (\<lambda>(lenses, c').
          ret ((plane_name, distance, lens_redshift) # lenses, c')))))))))))))))))"

definition map_name :: "('f, 'u, 'g, 't) env \<Rightarrow> string \<Rightarrow> string \<Rightarrow> 'f \<Rightarrow> int \<Rightarrow> string \<Rightarrow> string" where
  \<comment> \<open>\<^verbatim>\<open>os.path.join(save_path,"WL<kind>_z{0:.2f}_{1:04d}r.{2}".format(z,r+1,format))\<close>\<close>
  "map_name E path kind z r fmt =
     path_join path [''WL'' @ kind @ ''_z'' @ format_2f E z @ ''_'' @ format_04d (r + 1)
                       @ ''r.'' @ fmt]"

definition save_maps ::
  "('f::{one,plus,minus,times,uminus,inverse,numeral}, 'u, 'g, 't) env
     \<Rightarrow> ('f, 'u, 'ps, 'mix) map_settings \<Rightarrow> string \<Rightarrow> int \<Rightarrow> 'f jacobian
     \<Rightarrow> ('f, 'u) event list" where
  \<comment> \<open>lines 282--305: the maps that the settings ask for, in the order they are saved\<close>
  "save_maps E settings path r jacobian =
     (if convergence settings
      then [SaveConvergence
              (map_name E path ''conv'' (source_redshift settings) r (format settings))
              (convergence_data jacobian)]
      else [])
     @ (if shear settings
        then [SaveShear
                (map_name E path ''shear'' (source_redshift settings) r (format settings))
                (shear1_data jacobian) (shear2_data jacobian)]
        else [])
     @ (if omega settings
        then [SaveOmega
                (map_name E path ''omega'' (source_redshift settings) r (format settings))
                (omega_data jacobian)]
        else [])"

definition meshgrid :: "'f list \<Rightarrow> 'f list \<times> 'f list" where
  \<comment> \<open>\<^verbatim>\<open>xx,yy = np.meshgrid(b,b)\<close>, each in row-major order\<close>
  "meshgrid b = (concat (replicate (length b) b), concat (map (\<lambda>v. replicate (length b) v) b))"

definition map_realization ::
  "('f::{zero,ord,one,plus,minus,times,uminus,inverse,numeral}, 'u, 'g, 't) env
     \<Rightarrow> ('f, 'u) map_run \<Rightarrow> int \<Rightarrow> nat option \<Rightarrow> ('g, ('f, 'u) event, nat option) prog" where
  \<comment> \<open>the body of the loop of lines 199--309\<close>
  "map_realization E ctx r c =
     bindP (lift (readlines E (info_filename ctx))) (\<lambda>lines.
     bindP (map_add_lenses E ctx lines c) (\<lambda>(lenses, c').
     bindP (tracer_reorderLenses E lenses) (\<lambda>tracer.
     bindP (lift (linspace E 0 (fst (map_angle (map_st ctx)))
                    (map_resolution (map_st ctx)))) (\<lambda>b.
     bindP (tracer_shoot E tracer (meshgrid b, snd (map_angle (map_st ctx)))
              (ScalarZ (source_redshift (map_st ctx)))) (\<lambda>jacobian.
     bindP (emit_all (save_maps E (map_st ctx) (save_path ctx) r jacobian)) (\<lambda>_.
       ret c'))))))"

primrec map_loop ::
  "('f::{zero,ord,one,plus,minus,times,uminus,inverse,numeral}, 'u, 'g, 't) env
     \<Rightarrow> ('f, 'u) map_run \<Rightarrow> int list \<Rightarrow> nat option \<Rightarrow> ('g, ('f, 'u) event, unit) prog" where
  "map_loop E ctx [] c = ret ()"
| "map_loop E ctx (r # rs) c =
     bindP (map_realization E ctx r c) (\<lambda>c'. map_loop E ctx rs c')"

definition any_seed :: "('f, 'u) any_map_settings \<Rightarrow> int" where
  "any_seed settings =
     (case settings of MapSettings ms \<Rightarrow> seed ms | TelescopicMapSettings ts \<Rightarrow> seed ts)"

definition any_realizations :: "('f, 'u) any_map_settings \<Rightarrow> int" where
  "any_realizations settings =
     (case settings of
        MapSettings ms \<Rightarrow> lens_map_realizations ms
      | TelescopicMapSettings ts \<Rightarrow> lens_map_realizations ts)"

definition map_handles ::
  "('f::zero, 'u, 'g, 't) env \<Rightarrow> ('f, 'u) any_map_settings \<Rightarrow> string
     \<Rightarrow> error + ('u model \<times> collection list \<times> map_batch \<times> 'f list)" where
  \<comment> \<open>lines 56--89: the model, the collections, the map set and the redshifts of the cuts\<close>
  "map_handles E settings ident =
     (let parts = split_on CHR ''|'' ident in
      if length parts = 2 then
        (case settings of
           MapSettings ms \<Rightarrow>
             bindE (getModel E (parts ! 0)) (\<lambda>model.
             bindE (getCollection E model (parts ! 1)) (\<lambda>coll.
             bindE (getMapSet E coll (directory_name ms)) (\<lambda>mb.
               Inr (model, [coll], mb, [0]))))
         | TelescopicMapSettings ts \<Rightarrow> Inl AssertionError)
      else if length parts = 1 then
        (case settings of
           MapSettings ms \<Rightarrow> Inl AssertionError
         | TelescopicMapSettings ts \<Rightarrow>
             bindE (getModel E (parts ! 0)) (\<lambda>model.
             bindE (getTelescopicMapSet E model (directory_name ts)) (\<lambda>tmb.
               Inr (model, mapcollections tmb,
                    \<lparr>mb_home = mb_home tmb, mb_storage = mb_storage tmb\<rparr>, redshifts tmb))))
      else Inl SystemExit)"

definition override_settings ::
  "('f, 'u, 'g, 't) env \<Rightarrow> ('f, 'u) any_map_settings \<Rightarrow> map_batch
     \<Rightarrow> error + ('f, 'u) any_map_settings" where
  \<comment> \<open>lines 93--102\<close>
  "override_settings E settings mb =
     (case settings of
        MapSettings ms \<Rightarrow>
          if override_with_local ms
          then bindE (load_map_settings E (path_join (mb_home mb) [''settings.p'']))
                 (\<lambda>s. Inr (MapSettings s))
          else Inr settings
      | TelescopicMapSettings ts \<Rightarrow>
          if override_with_local ts
          then bindE (load_telescopic_settings E (path_join (mb_home mb) [''settings.p'']))
                 (\<lambda>s. Inr (TelescopicMapSettings s))
          else Inr settings)"

definition map_resolve ::
  "('f::zero, 'u, 'g, 't) env \<Rightarrow> ('f, 'u) any_map_settings \<Rightarrow> string
     \<Rightarrow> error + ('u model \<times> collection list \<times> map_batch \<times> 'f list
                  \<times> ('f, 'u) any_map_settings)" where
  \<comment> \<open>lines 56--102: the handles and the settings in force\<close>
  "map_resolve E settings0 ident =
     bindE (map_handles E settings0 ident) (\<lambda>(model, colls, mb, cuts).
     bindE (override_settings E settings0 mb) (\<lambda>settings.
       Inr (model, colls, mb, cuts, settings)))"

definition collection_settings ::
  "('f, 'u) any_map_settings \<Rightarrow> collection list
     \<Rightarrow> ('g, ('f, 'u) event, ('f, 'u, string list, int list list) map_settings) prog" where
  \<comment> \<open>lines 119--154; a telescopic run needs one setting of each kind for each collection\<close>
  "collection_settings settings colls =
     (case settings of
        MapSettings ms \<Rightarrow> ret (single_collection ms)
      | TelescopicMapSettings ts \<Rightarrow>
          if length (plane_set ts) \<noteq> length colls then throw SystemExit
          else if length (mix_nbody_realizations ts) \<noteq> length colls then throw SystemExit
          else if length (mix_cut_points ts) \<noteq> length colls then throw SystemExit
          else if length (mix_normals ts) \<noteq> length colls then throw SystemExit
          else ret ts)"

definition map_info_filename ::
  "('f, 'u, string list, int list list) map_settings \<Rightarrow> collection list \<Rightarrow> error + string" where
  \<comment> \<open>lines 178--181\<close>
  "map_info_filename st colls =
     (case plane_info_file st of
        None \<Rightarrow>
          bindE (index colls 0) (\<lambda>coll.
          bindE (index (mix_nbody_realizations st) 0) (\<lambda>nbody_realizations.
          bindE (index nbody_realizations 0) (\<lambda>nb.
          bindE (index (plane_set st) 0) (\<lambda>pset.
            Inr (path_join (map_plane_path (coll_storage coll) nb pset) [''info.txt''])))))
      | Some f \<Rightarrow> Inr f)"

definition map_prepare ::
  "('f, 'u, 'g, 't) env \<Rightarrow> pool option \<Rightarrow> 'u model \<Rightarrow> collection list \<Rightarrow> map_batch
     \<Rightarrow> 'f list \<Rightarrow> ('f, 'u) any_map_settings
     \<Rightarrow> ('g, ('f, 'u) event, ('f, 'u) map_run \<times> int \<times> int) prog" where
  \<comment> \<open>lines 114--194, after the generator is seeded and before the loop over the
      realizations\<close>
  "map_prepare E p model colls mb cuts settings =
     bindP (collection_settings settings colls) (\<lambda>st.
     bindP (lift (task_range p (lens_map_realizations st)))
       (\<lambda>(first_map_realization, last_map_realization).
     bindP (lift (map_info_filename st colls)) (\<lambda>info.
     bindP (lift (readlines E info)) (\<lambda>lines.
       ret (\<lparr>map_model = model, map_collection = colls, cut_redshifts = cuts, map_st = st,
             info_filename = info, save_path = mb_storage mb\<rparr>,
            first_map_realization, last_map_realization)))))"

definition map_setup ::
  "('f::zero, 'u, 'g, 't) env \<Rightarrow> pool option \<Rightarrow> ('f, 'u) any_map_settings \<Rightarrow> string
     \<Rightarrow> ('g, ('f, 'u) event, ('f, 'u) map_run \<times> int \<times> int) prog" where
  \<comment> \<open>lines 56--194: all that comes before the loop over the realizations\<close>
  "map_setup E p settings0 ident =
     bindP (lift (map_resolve E settings0 ident)) (\<lambda>(model, colls, mb, cuts, settings).
     bindP (np_random_seed E (worker_seed p (any_seed settings))) (\<lambda>_.
       map_prepare E p model colls mb cuts settings))"

definition singleRedshift ::
  "('f::{zero,ord,one,plus,minus,times,uminus,inverse,numeral}, 'u, 'g, 't) env
     \<Rightarrow> pool option \<Rightarrow> ('f, 'u) any_map_settings \<Rightarrow> string \<Rightarrow> ('g, ('f, 'u) event, unit) prog" where
  "singleRedshift E p settings ident =
     bindP (map_setup E p settings ident) (\<lambda>(ctx, first_map_realization, last_map_realization).
       map_loop E ctx (py_range first_map_realization last_map_realization) None)"

definition run :: "('g, 'e, 'a) prog \<Rightarrow> 'g \<Rightarrow> (error + 'a) \<times> 'e list" where
  \<comment> \<open>a run from the state \<open>g0\<close> of numpy's generator: how it ends, and what it did\<close>
  "run m g0 = (case m \<lparr>rng = g0, trace = []\<rparr> of (res, w) \<Rightarrow> (res, trace w))"

section \<open>Kinds of effects\<close>

fun is_seed :: "('f, 'u) event \<Rightarrow> bool" where
  "is_seed (RandomSeed n) = True"
| "is_seed e = False"

fun is_rng_call :: "('f, 'u) event \<Rightarrow> bool" where
  \<comment> \<open>the calls that read or set the state of numpy's generator\<close>
  "is_rng_call (RandomSeed n) = True"
| "is_rng_call (RandInt high) = True"
| "is_rng_call (RandIntArray high R S) = True"
| "is_rng_call ReorderLenses = True"
| "is_rng_call e = False"

fun is_matrix_draw :: "('f, 'u) event \<Rightarrow> bool" where
  "is_matrix_draw (RandIntArray high R S) = True"
| "is_matrix_draw e = False"

fun processing :: "('f, 'u) event \<Rightarrow> bool" where
  \<comment> \<open>what is done for a realization: its draws, its lenses, its rays, its products\<close>
  "processing (RandInt high) = True"
| "processing (AddLens name distance z) = True"
| "processing ReorderLenses = True"
| "processing Shoot = True"
| "processing (SaveConvergence name d) = True"
| "processing (SaveShear name d1 d2) = True"
| "processing (SaveOmega name d) = True"
| "processing (SaveShearCatalog name rws) = True"
| "processing e = False"

fun lens_names :: "('f, 'u) event list \<Rightarrow> string list" where
  \<comment> \<open>the plane files given to \<^verbatim>\<open>tracer.addLens\<close>, in the order of the calls\<close>
  "lens_names [] = []"
| "lens_names (AddLens name distance z # es) = name # lens_names es"
| "lens_names (e # es) = lens_names es"

section \<open>A small batch\<close>

text \<open>
  A batch on which the scripts can be run: one model, one collection stored under
  \<^verbatim>\<open>/storage\<close>, a plane summary of two snapshots, and a few galaxy catalogs given by
  their numbers of galaxies. Floats are reals, a unit is its name, the state of the
  generator is a counter.
\<close>

definition demo_float :: "string \<Rightarrow> error + real" where
  "demo_float s =
     (if s = ''100.0'' then Inr 100 else if s = ''200.0'' then Inr 200
      else if s = ''0.5'' then Inr (1 / 2) else if s = ''1.0'' then Inr 1
      else if s = ''240'' then Inr 240 else Inl ValueError)"

definition demo_int :: "string \<Rightarrow> error + int" where
  "demo_int s = (if s = ''0'' then Inr 0 else if s = ''1'' then Inr 1 else Inl ValueError)"

definition demo_info :: "string list" where
  "demo_info =
     [''snapshot=0,distance=100.0 Mpc/h,redshift=0.5'' @ [newline],
      ''snapshot=1,distance=200.0 Mpc/h,redshift=1.0'' @ [newline]]"

definition demo_sizes :: "(string \<times> nat) list" where
  "demo_sizes =
     [(''/in/a.fits'', 1), (''/in/b.fits'', 2), (''/in/c.fits'', 1),
      (''/in/g100.fits'', 100), (''/in/g250.fits'', 250), (''/in/g50.fits'', 50)]"

definition demo_read :: "string \<Rightarrow> error + real position_catalog" where
  "demo_read f =
     (case map_of demo_sizes f of
        None \<Rightarrow> Inl IOError
      | Some n \<Rightarrow> Inr \<lparr>meta_AUNIT = Some ''deg'', rows = replicate n (0, 0, 1)\<rparr>)"

definition demo_env :: "(real, string, nat, (real, string) lens list) env" where
  "demo_env =
     \<lparr>units = (\<lambda>n. if n = ''Mpc'' \<or> n = ''deg'' then Some n else None),
      to_string = (\<lambda>un. un),
      convert_unit = (\<lambda>a b vals. Inr vals),
      py_float = demo_float,
      py_int = demo_int,
      format_2f = (\<lambda>z. ''1.00''),
      linspace = (\<lambda>a b n. Inr (replicate (nat n) a)),
      readlines = (\<lambda>f. if f = ''/storage/ic1/Planes/info.txt'' then Inr demo_info
                        else Inl IOError),
      path_exists = (\<lambda>d. False),
      load_map_settings = (\<lambda>f. Inl IOError),
      load_telescopic_settings = (\<lambda>f. Inl IOError),
      load_catalog_settings = (\<lambda>f. Inl IOError),
      Catalog_read = demo_read,
      getModel = (\<lambda>cosmo_id. Inr \<lparr>Mpc_over_h = ''Mpc/h''\<rparr>),
      getCollection = (\<lambda>model geometry_id. Inr \<lparr>coll_storage = ''/storage''\<rparr>),
      getCollection_box = (\<lambda>model bx nside. Inr \<lparr>coll_storage = ''/storage''\<rparr>),
      getMapSet = (\<lambda>coll name. Inr \<lparr>mb_home = ''/home'', mb_storage = ''/maps''\<rparr>),
      getTelescopicMapSet = (\<lambda>model name. Inl IOError),
      getCatalog = (\<lambda>coll name. Inr \<lparr>cat_home = ''/home'', cat_storage = ''/catalogs''\<rparr>),
      random_seed = (\<lambda>n. Inr (nat n)),
      random_randint = (\<lambda>g high. (int g mod high, Suc g)),
      reorderLenses = (\<lambda>g lenses. Inr (lenses, Suc g)),
      shoot = (\<lambda>t pos z. Inr (map (\<lambda>x. (1, 0, 0, 1)) (fst (fst pos))))\<rparr>"

definition demo_catalog_settings :: "string list \<Rightarrow> int \<Rightarrow> int \<Rightarrow> string catalog_settings" where
  \<comment> \<open>the input files, the total number of galaxies, the number of realizations\<close>
  "demo_catalog_settings files total_galaxies realizations =
     \<lparr>directory_name = ''Catalog'', override_with_local = False, seed = 5,
      plane_set = ''Planes'', mix_nbody_realizations = [1], mix_cut_points = [0, 1, 2],
      mix_normals = [0, 1, 2], format = ''fits'',
      total_num_galaxies = total_galaxies, catalog_angle_unit = ''deg'', input_files = files,
      lens_catalog_realizations = realizations, realizations_per_subdirectory = None\<rparr>"

definition demo_ms :: "int \<Rightarrow> (real, string, string, int list) map_settings" where
  \<comment> \<open>settings of a run on one collection, for a number of realizations\<close>
  "demo_ms realizations =
     \<lparr>directory_name = ''Maps'', override_with_local = False, seed = 5,
      plane_set = ''Planes'', mix_nbody_realizations = [1], mix_cut_points = [0, 1, 2],
      mix_normals = [0, 1, 2], format = ''fits'',
      map_angle = (1, ''deg''), source_redshift = 1, map_resolution = 2,
      lens_map_realizations = realizations, convergence = True, shear = True,
      omega = True, plane_info_file = None\<rparr>"

definition demo_map_settings :: "int \<Rightarrow> (real, string) any_map_settings" where
  "demo_map_settings realizations = MapSettings (demo_ms realizations)"

section \<open>What a program may do\<close>

definition emits :: "('g, 'e, 'a) prog \<Rightarrow> ('e \<Rightarrow> bool) \<Rightarrow> bool" where
  \<comment> \<open>from any world, the program only adds effects to the trace, all of the kind \<open>P\<close>\<close>
  "emits m P \<longleftrightarrow> (\<forall>w. \<exists>es. trace (snd (m w)) = trace w @ es \<and> list_all P es)"

definition setup_kind :: "('f, 'u) event \<Rightarrow> bool" where
  \<comment> \<open>an effect of the preparation of a run, other than the seeding of the generator\<close>
  "setup_kind e \<longleftrightarrow> \<not> processing e \<and> \<not> is_seed e"

definition fails :: "('g, 'e, 'a) prog \<Rightarrow> bool" where
  \<comment> \<open>from any world, the program ends with an exception\<close>
  "fails m \<longleftrightarrow> (\<forall>w. \<exists>e. fst (m w) = Inl e)"

definition outcome :: "('g, 'e, 'a) prog \<Rightarrow> ('g, 'e) world \<Rightarrow> (error + 'a) \<times> 'e list" where
  \<comment> \<open>how the program ends from the world \<open>w\<close>, and the trace then\<close>
  "outcome m w = (case m w of (res, w') \<Rightarrow> (res, trace w'))"

section \<open>Notions that the claims use\<close>




definition randomizer_ok ::
  "int list list list \<Rightarrow> nat \<Rightarrow> nat \<Rightarrow> nat \<Rightarrow> nat \<Rightarrow> nat \<Rightarrow> bool" where
  \<comment> \<open>a table of the shape \<open>(R,S,3)\<close> whose components index lists of the lengths
      \<open>n0\<close>, \<open>n1\<close>, \<open>n2\<close>\<close>
  "randomizer_ok rz R S n0 n1 n2 \<longleftrightarrow>
     length rz = R \<and>
     list_all (\<lambda>row. length row = S \<and>
       list_all (\<lambda>entry. length entry = 3
                  \<and> 0 \<le> entry ! 0 \<and> entry ! 0 < int n0
                  \<and> 0 \<le> entry ! 1 \<and> entry ! 1 < int n1
                  \<and> 0 \<le> entry ! 2 \<and> entry ! 2 < int n2) row) rz"

definition randint_contract :: "('f, 'u, 'g, 't) env \<Rightarrow> bool" where
  \<comment> \<open>what numpy documents of \<^verbatim>\<open>randint(low=0,high=high)\<close>: a value from 0 inclusive to
      \<open>high\<close> exclusive\<close>
  "randint_contract E \<longleftrightarrow>
     (\<forall>g high. 0 < high \<longrightarrow>
        0 \<le> fst (random_randint E g high) \<and> fst (random_randint E g high) < high)"

definition catalog_loop_event :: "('f, 'u) catalog_run \<Rightarrow> int list \<Rightarrow> ('f, 'u) event \<Rightarrow> bool" where
  \<comment> \<open>an effect of the loop over the realizations \<open>rs\<close> of a catalog run: a lens whose plane
      is named through the randomization matrix, the tracer's work, or a catalog written\<close>
  "catalog_loop_event ctx rs e \<longleftrightarrow>
     (case e of
        AddLens name distance z \<Rightarrow>
          (\<exists>r\<in>set rs. \<exists>s snapshot_number. catalog_plane_name ctx r s snapshot_number = Inr name)
      | ReorderLenses \<Rightarrow> True
      | Shoot \<Rightarrow> True
      | SaveShearCatalog name rws \<Rightarrow> True
      | _ \<Rightarrow> False)"

section \<open>Partition of the realizations\<close>

lemma set_py_range: "set (py_range a b) = {a..<b}"
  by (auto simp: py_range_def)

lemma task_range_worker:
  "sz + 1 \<noteq> 0 \<Longrightarrow> R mod (sz + 1) = 0 \<Longrightarrow>
   task_range (worker sz rk) R = Inr (R div (sz + 1) * rk, R div (sz + 1) * (rk + 1))"
  by (simp add: task_range_def worker_def Let_def)

lemma set_task_realizations_worker:
  "sz + 1 \<noteq> 0 \<Longrightarrow> R mod (sz + 1) = 0 \<Longrightarrow>
   set (task_realizations (worker sz rk) R) = {R div (sz + 1) * rk ..< R div (sz + 1) * (rk + 1)}"
  by (simp add: task_realizations_def task_range_worker set_py_range)

lemma blocks_cover:
  fixes q :: int
  assumes "0 \<le> sz" "0 \<le> q"
  shows "(\<Union>rk\<in>{0..sz}. {q * rk ..< q * (rk + 1)}) = {0 ..< q * (sz + 1)}"
proof (intro equalityI subsetI)
  fix x assume "x \<in> (\<Union>rk\<in>{0..sz}. {q * rk ..< q * (rk + 1)})"
  then obtain rk where rk: "0 \<le> rk" "rk \<le> sz" "q * rk \<le> x" "x < q * (rk + 1)"
    by auto
  have "0 \<le> q * rk" using assms rk by simp
  moreover have "q * (rk + 1) \<le> q * (sz + 1)"
    using assms rk by (intro mult_left_mono) auto
  ultimately show "x \<in> {0 ..< q * (sz + 1)}" using rk by auto
next
  fix x assume "x \<in> {0 ..< q * (sz + 1)}"
  then have x: "0 \<le> x" "x < q * (sz + 1)" by auto
  have qpos: "0 < q"
  proof (rule ccontr)
    assume "\<not> 0 < q"
    with assms have "q = 0" by simp
    with x show False by simp
  qed
  define rk where "rk = x div q"
  have decomp: "q * rk + x mod q = x"
    unfolding rk_def by (rule mult_div_mod_eq)
  have m0: "0 \<le> x mod q" and m1: "x mod q < q"
    using qpos by simp_all
  have le: "q * rk \<le> x" using decomp m0 by linarith
  have "0 \<le> rk" using x qpos by (simp add: rk_def pos_imp_zdiv_nonneg_iff)
  moreover have "rk < sz + 1"
  proof (rule ccontr)
    assume "\<not> rk < sz + 1"
    then have "sz + 1 \<le> rk" by simp
    then have "q * (sz + 1) \<le> q * rk" using qpos by (intro mult_left_mono) auto
    with le x show False by linarith
  qed
  moreover note le
  moreover have "x < q * (rk + 1)"
    using decomp m1 by (simp add: distrib_left)
  ultimately show "x \<in> (\<Union>rk\<in>{0..sz}. {q * rk ..< q * (rk + 1)})" by auto
qed

lemma blocks_disjoint:
  fixes q :: int
  assumes "0 \<le> q" "rk \<noteq> rk'"
  shows "{q * rk ..< q * (rk + 1)} \<inter> {q * rk' ..< q * (rk' + 1)} = {}"
proof -
  have less: "{q * a ..< q * (a + 1)} \<inter> {q * b ..< q * (b + 1)} = {}" if "a < b" for a b :: int
  proof -
    from that have "a + 1 \<le> b" by simp
    then have "q * (a + 1) \<le> q * b" using assms(1) by (rule mult_left_mono)
    then show ?thesis by auto
  qed
  from assms(2) consider "rk < rk'" | "rk' < rk" by linarith
  then show ?thesis
  proof cases
    case 1 then show ?thesis by (rule less)
  next
    case 2 then show ?thesis using less [of rk' rk] by (simp add: Int_commute)
  qed
qed

text \<open>
  Claim C2. With \<open>W = pool.size + 1\<close> tasks of ranks \<open>0..pool.size\<close> and \<open>R\<close>
  realizations, \<open>R mod W = 0\<close>: the task of rank \<open>rk\<close> is given the half-open range
  from \<open>(R div W) * rk\<close> to \<open>(R div W) * (rk + 1)\<close>; the ranges of two different tasks are
  disjoint, each holds \<open>R div W\<close> realizations, and together they are exactly
  \<open>0, ..., R - 1\<close>. Without a pool the single range is \<open>0, ..., R - 1\<close>. The code is the
  same in \<^verbatim>\<open>singleRedshift\<close> and \<^verbatim>\<open>simulatedCatalog\<close>.
\<close>

theorem C2_partition_complete:
  assumes "0 \<le> sz" and "0 \<le> R" and "R mod (sz + 1) = 0"
  shows "(\<forall>rk\<in>{0..sz}. task_range (worker sz rk) R
            = Inr (R div (sz + 1) * rk, R div (sz + 1) * (rk + 1)))
       \<and> (\<Union>rk\<in>{0..sz}. set (task_realizations (worker sz rk) R)) = {0..<R}
       \<and> (\<forall>rk\<in>{0..sz}. \<forall>rk'\<in>{0..sz}. rk \<noteq> rk' \<longrightarrow>
            set (task_realizations (worker sz rk) R)
              \<inter> set (task_realizations (worker sz rk') R) = {})
       \<and> (\<forall>rk\<in>{0..sz}. distinct (task_realizations (worker sz rk) R)
            \<and> int (length (task_realizations (worker sz rk) R)) = R div (sz + 1))
       \<and> task_range None R = Inr (0, R)
       \<and> set (task_realizations None R) = {0..<R}"
proof -
  define q where "q = R div (sz + 1)"
  have W: "sz + 1 \<noteq> 0" using assms(1) by simp
  have q0: "0 \<le> q" using assms by (simp add: q_def pos_imp_zdiv_nonneg_iff)
  have R: "R = q * (sz + 1)"
    using div_mult_mod_eq [of R "sz + 1"] assms(3) by (simp add: q_def mult.commute)
  have sets: "set (task_realizations (worker sz rk) R) = {q * rk ..< q * (rk + 1)}" for rk
    using set_task_realizations_worker [OF W assms(3)] by (simp add: q_def)
  have lists: "task_realizations (worker sz rk) R = py_range (q * rk) (q * (rk + 1))" for rk
    using task_range_worker [OF W assms(3)] by (simp add: task_realizations_def q_def)
  have 1: "\<forall>rk\<in>{0..sz}. task_range (worker sz rk) R
            = Inr (R div (sz + 1) * rk, R div (sz + 1) * (rk + 1))"
    using task_range_worker [OF W assms(3)] by simp
  have 2: "(\<Union>rk\<in>{0..sz}. set (task_realizations (worker sz rk) R)) = {0..<R}"
    using blocks_cover [OF assms(1) q0] by (simp add: sets R [symmetric])
  have 3: "\<forall>rk\<in>{0..sz}. \<forall>rk'\<in>{0..sz}. rk \<noteq> rk' \<longrightarrow>
            set (task_realizations (worker sz rk) R)
              \<inter> set (task_realizations (worker sz rk') R) = {}"
    using blocks_disjoint [OF q0] by (simp add: sets)
  have 4: "\<forall>rk\<in>{0..sz}. distinct (task_realizations (worker sz rk) R)
            \<and> int (length (task_realizations (worker sz rk) R)) = R div (sz + 1)"
  proof
    fix rk
    have "q * (rk + 1) - q * rk = q" by (simp add: distrib_left)
    then show "distinct (task_realizations (worker sz rk) R)
            \<and> int (length (task_realizations (worker sz rk) R)) = R div (sz + 1)"
      using q0 by (simp add: lists py_range_def q_def [symmetric])
  qed
  have 5: "task_range None R = Inr (0, R)"
    by (simp add: task_range_def)
  have 6: "set (task_realizations None R) = {0..<R}"
    by (simp add: task_realizations_def 5 set_py_range)
  from 1 2 3 4 5 6 show ?thesis by blast
qed

theorem C2_partition_complete_witness:
  "(0::int) \<le> 2 \<and> (0::int) \<le> 6 \<and> (6::int) mod (2 + 1) = 0
   \<and> task_range (worker 2 1) 6 = Inr (2, 4)
   \<and> (\<Union>rk\<in>{0..2}. set (task_realizations (worker 2 rk) 6)) = {0..<6}
   \<and> set (task_realizations (worker 2 0) 6) \<inter> set (task_realizations (worker 2 2) 6) = {}
   \<and> int (length (task_realizations (worker 2 1) 6)) = 2"
proof -
  have h: "(0::int) \<le> 2" "(0::int) \<le> 6" "(6::int) mod (2 + 1) = 0" by simp_all
  from C2_partition_complete [OF h] show ?thesis by simp
qed

lemma bindE_Inr_iff: "bindE m k = Inr y \<longleftrightarrow> (\<exists>x. m = Inr x \<and> k x = Inr y)"
  by (cases m) (simp_all add: bindE_def)

lemma bindE_simps [simp]: "bindE (Inl e) k = Inl e" "bindE (Inr x) k = k x"
  by (simp_all add: bindE_def)

section \<open>The FastPM header, verified\<close>

text \<open>
  Claim C10. Whenever \<^verbatim>\<open>getHeader\<close> returns a header, that header has
  \<open>Ode0 = 1 - Om0\<close>, \<open>w0 = -1\<close>, \<open>wa = 0\<close>, \<open>h = 0.72\<close> whatever the file holds, one
  file, as many particles in the file as in total, namely the cube of the \<^verbatim>\<open>NC\<close> of the
  file, a box size of the stored \<^verbatim>\<open>BoxSize\<close> times 1000, and masses that are zero but
  for entry 1, which is \<^verbatim>\<open>M0\<close> times \<open>h\<close>.
\<close>

theorem C10_fastpm_header:
  assumes "getHeader bf_header = Inr header"
  shows "Ode0 header = 1 - Om0 header \<and> w0 header = - 1 \<and> wa header = 0 \<and> little_h header = 72 / 100
       \<and> num_files header = 1
       \<and> num_particles_file header = num_particles_total header
       \<and> (\<exists>nc om bs m0.
             attr0 (attr_NC bf_header) = Inr nc \<and> attr0 (attr_OmegaM bf_header) = Inr om
           \<and> attr0 (attr_BoxSize bf_header) = Inr bs \<and> attr0 (attr_M0 bf_header) = Inr m0
           \<and> num_particles_total header = nc ^ 3 \<and> Om0 header = om \<and> box_size header = bs * 1000
           \<and> masses header = [0, m0 * little_h header, 0, 0, 0, 0])"
proof -
  from assms obtain nc om bs m0 where
    a: "attr0 (attr_NC bf_header) = Inr nc" "attr0 (attr_OmegaM bf_header) = Inr om"
       "attr0 (attr_BoxSize bf_header) = Inr bs" "attr0 (attr_M0 bf_header) = Inr m0"
    and hdr: "header = \<lparr>num_particles_file = nc ^ 3, num_particles_total = nc ^ 3, num_files = 1,
            Om0 = om, Ode0 = 1 - om, w0 = - 1, wa = 0, little_h = 72 / 100,
            box_size = bs * 1000, masses = [0, m0 * (72 / 100), 0, 0, 0, 0]\<rparr>"
    unfolding getHeader_def bindE_Inr_iff by auto
  show ?thesis unfolding hdr using a by simp
qed

lemma getHeader_returns:
  "attr_NC a = Some (nc # ncs) \<Longrightarrow> attr_OmegaM a = Some (om # oms) \<Longrightarrow>
   attr_BoxSize a = Some (bs # bss) \<Longrightarrow> attr_M0 a = Some (m0 # m0s) \<Longrightarrow>
   \<exists>header. getHeader a = Inr header"
  by (simp add: getHeader_def attr0_def index_def)

theorem C10_fastpm_header_witness:
  "getHeader \<lparr>attr_NC = Some [128::int], attr_OmegaM = Some [3 / 10 :: real],
              attr_BoxSize = Some [240], attr_M0 = Some [5]\<rparr>
     = Inr \<lparr>num_particles_file = 2097152, num_particles_total = 2097152, num_files = 1,
            Om0 = 3 / 10, Ode0 = 7 / 10, w0 = - 1, wa = 0, little_h = 18 / 25,
            box_size = 240000, masses = [0, 18 / 5, 0, 0, 0, 0]\<rparr>
   \<and> Ode0 \<lparr>num_particles_file = 2097152::int, num_particles_total = 2097152, num_files = 1,
            Om0 = 3 / 10 :: real, Ode0 = 7 / 10, w0 = - 1, wa = 0, little_h = 18 / 25,
            box_size = 240000, masses = [0, 18 / 5, 0, 0, 0, 0]\<rparr> = 1 - 3 / 10"
proof -
  have h: "getHeader \<lparr>attr_NC = Some [128::int], attr_OmegaM = Some [3 / 10 :: real],
              attr_BoxSize = Some [240], attr_M0 = Some [5]\<rparr>
     = Inr \<lparr>num_particles_file = 2097152, num_particles_total = 2097152, num_files = 1,
            Om0 = 3 / 10, Ode0 = 7 / 10, w0 = - 1, wa = 0, little_h = 18 / 25,
            box_size = 240000, masses = [0, 18 / 5, 0, 0, 0, 0]\<rparr>"
    by (simp add: getHeader_def attr0_def index_def)
  from C10_fastpm_header [OF h] h show ?thesis by simp
qed

section \<open>Convergence, shear and omega, verified\<close>


lemma length_jacobian_row [simp]: "length (jacobian_row jacobian k) = length jacobian"
  by (simp add: jacobian_row_def)

lemma length_data [simp]:
  "length (convergence_data jacobian) = length jacobian"
  "length (shear1_data jacobian) = length jacobian"
  "length (shear2_data jacobian) = length jacobian"
  "length (omega_data jacobian) = length jacobian"
  by (simp_all add: convergence_data_def shear1_data_def shear2_data_def omega_data_def
        scalar_minus_def scalar_times_def array_add_def array_sub_def)





section \<open>The unit of a distance of the plane summary\<close>

lemma lens_specification_unit:
  assumes "lens_specification E model line = Inr (n, (d, un), z)"
  shows "un = Mpc_over_h model \<or> units E ''unit'' = Some un"
  using assms
  by (auto simp: lens_specification_def Let_def bindE_def py_getattr_def
           split: sum.splits if_splits option.splits prod.splits)


text \<open>
  Claim C3 says that a distance whose unit is not \<^verbatim>\<open>Mpc/h\<close> is multiplied by the
  attribute of the units module that the parsed unit names. The code of both scripts
  asks the module for the attribute called \<^verbatim>\<open>unit\<close> instead, whatever the line says
  (\<open>lens_specification_unit\<close>): with a units module that has \<^verbatim>\<open>Mpc\<close> and has no
  attribute \<^verbatim>\<open>unit\<close>, the line with the distance \<^verbatim>\<open>100.0 Mpc\<close> raises
  \<^verbatim>\<open>AttributeError\<close>.
\<close>

theorem C3_unit_name_not_used:
  "units demo_env ''Mpc'' = Some ''Mpc''
   \<and> lens_specification demo_env \<lparr>Mpc_over_h = ''Mpc/h''\<rparr>
        ''snapshot=0,distance=100.0 Mpc,redshift=0.5'' = Inl AttributeError"
  by (simp add: lens_specification_def demo_env_def demo_float_def demo_int_def index_def
        unpack2_def py_getattr_def)


section \<open>The names of the shear catalogs\<close>

text \<open>
  Claim C9 names the catalog of the input file \<open>f\<close> after the basename of \<open>f\<close> without
  its extension. The code cuts the whole path at its first dot before it takes the
  basename: for \<^verbatim>\<open>./positions.fits\<close> and for \<^verbatim>\<open>./other.fits\<close> the name is
  \<^verbatim>\<open>WLshear__0001r.fits\<close>, and for \<^verbatim>\<open>/data/v1.2/positions.fits\<close> it is
  \<^verbatim>\<open>WLshear_v1_0001r.fits\<close>.
\<close>

theorem C9_name_of_dotted_path:
  "shear_catalog_savename ''/catalogs'' [] 1 0 ''./positions.fits'' ''fits''
     = Inr ''/catalogs/WLshear__0001r.fits''
   \<and> shear_catalog_savename ''/catalogs'' [] 1 0 ''./other.fits'' ''fits''
     = Inr ''/catalogs/WLshear__0001r.fits''
   \<and> shear_catalog_savename ''/catalogs'' [] 1 0 ''/data/v1.2/positions.fits'' ''fits''
     = Inr ''/catalogs/WLshear_v1_0001r.fits''"
  by code_simp


section \<open>Rules for the effects of programs\<close>

lemma emits_ret [simp, intro!]: "emits (ret x) P"
  by (simp add: emits_def ret_def)

lemma emits_throw [simp, intro!]: "emits (throw e) P"
  by (simp add: emits_def throw_def)

lemma emits_lift [simp, intro!]: "emits (lift r) P"
  by (simp add: emits_def lift_def)

lemma emits_py_assert [simp, intro!]: "emits (py_assert b) P"
  by (simp add: py_assert_def)

lemma emits_emit [intro!]: "P e \<Longrightarrow> emits (emit e) P"
  by (simp add: emits_def emit_def)

lemma emits_emit_all [intro!]: "list_all P es \<Longrightarrow> emits (emit_all es) P"
  by (auto simp: emits_def emit_all_def)

lemma emits_bindP [intro!]:
  assumes "emits m P" and "\<And>x. emits (k x) P"
  shows "emits (bindP m k) P"
  unfolding emits_def
proof
  fix w
  from assms(1) obtain es where es: "trace (snd (m w)) = trace w @ es" "list_all P es"
    unfolding emits_def by blast
  show "\<exists>es. trace (snd (bindP m k w)) = trace w @ es \<and> list_all P es"
  proof (cases "m w")
    case (Pair r w')
    show ?thesis
    proof (cases r)
      case (Inl e)
      with Pair es show ?thesis by (auto simp: bindP_def)
    next
      case (Inr x)
      from assms(2) [of x] obtain es' where
        es': "trace (snd (k x w')) = trace w' @ es'" "list_all P es'"
        unfolding emits_def by blast
      with Pair Inr es have "trace (snd (bindP m k w)) = trace w @ (es @ es')"
        by (simp add: bindP_def)
      moreover have "list_all P (es @ es')" using es es' by simp
      ultimately show ?thesis by blast
    qed
  qed
qed

lemma emits_mono: "emits m P \<Longrightarrow> (\<And>e. P e \<Longrightarrow> Q e) \<Longrightarrow> emits m Q"
  unfolding emits_def list_all_iff by blast

lemma emits_if [intro!]:
  "(b \<Longrightarrow> emits m P) \<Longrightarrow> (\<not> b \<Longrightarrow> emits n P) \<Longrightarrow> emits (if b then m else n) P"
  by simp

lemma emits_case_prod [intro!]:
  "(\<And>a b. emits (f a b) P) \<Longrightarrow> emits (case_prod f x) P"
  by (cases x) simp

lemma emits_traceD:
  "emits m P \<Longrightarrow> m w = (r, w') \<Longrightarrow> \<exists>es. trace w' = trace w @ es \<and> list_all P es"
  unfolding emits_def by (metis snd_conv)

subsection \<open>The generator and the tracer\<close>

lemma emits_np_random_seed: "P (RandomSeed n) \<Longrightarrow> emits (np_random_seed E n) P"
  unfolding np_random_seed_def
  by (intro emits_bindP emits_emit emits_lift) (simp_all add: emits_def)

lemma emits_np_random_randint: "P (RandInt high) \<Longrightarrow> emits (np_random_randint E high) P"
  unfolding np_random_randint_def
  by (intro emits_bindP emits_emit emits_if emits_throw) (simp_all add: emits_def split: prod.splits)

lemma emits_np_random_randint_array:
  "P (RandIntArray high R S) \<Longrightarrow> emits (np_random_randint_array E high R S) P"
  unfolding np_random_randint_array_def
  by (intro emits_bindP emits_emit emits_if emits_throw) (simp_all add: emits_def split: prod.splits)

lemma emits_tracer_reorderLenses: "P ReorderLenses \<Longrightarrow> emits (tracer_reorderLenses E lenses) P"
  unfolding tracer_reorderLenses_def
  by (intro emits_bindP emits_emit) (simp_all add: emits_def split: prod.splits sum.splits)

lemma emits_tracer_shoot: "P Shoot \<Longrightarrow> emits (tracer_shoot E t pos z) P"
  unfolding tracer_shoot_def by (intro emits_bindP emits_emit emits_lift)

subsection \<open>The preparation of a catalog run\<close>

lemma emits_read_positions:
  "(\<And>f. P (CatalogCopy f)) \<Longrightarrow> emits (read_positions E p settings path f st) P"
  unfolding read_positions_def
  by (auto simp: Let_def split: prod.splits)

lemma emits_read_all_positions:
  "(\<And>f. P (CatalogCopy f)) \<Longrightarrow> emits (read_all_positions E p settings path files st) P"
  by (induction files arbitrary: st) (auto intro: emits_read_positions)

lemma emits_load_galaxies:
  "(\<And>f. P (CatalogCopy f)) \<Longrightarrow> emits (load_galaxies E p settings path) P"
  unfolding load_galaxies_def
  by (auto simp: Let_def intro: emits_read_all_positions)

lemma emits_catalog_randomizer:
  "(\<And>high R S. P (RandIntArray high R S)) \<Longrightarrow> emits (catalog_randomizer E settings R S) P"
  unfolding catalog_randomizer_def
  by (auto intro: emits_np_random_randint_array)

lemma emits_catalog_prepare:
  "emits (catalog_prepare E p model coll cat settings) setup_kind"
  unfolding catalog_prepare_def
  by (auto simp: Let_def setup_kind_def list_all_iff
           intro!: emits_load_galaxies emits_catalog_randomizer)

subsection \<open>The loop of a catalog run\<close>

lemma emits_catalog_add_lenses:
  "(\<And>name d z. P (AddLens name d z)) \<Longrightarrow> emits (catalog_add_lenses E ctx r s lines) P"
  by (induction lines arbitrary: s) (auto simp: Let_def)

lemma emits_save_shear_catalogs:
  "(\<And>name rws. P (SaveShearCatalog name rws)) \<Longrightarrow> emits (save_shear_catalogs ctx r sc files) P"
  by (induction files) auto

lemma emits_catalog_realization: "emits (catalog_realization E ctx r) processing"
  unfolding catalog_realization_def
  by (auto split: prod.splits
           intro!: emits_catalog_add_lenses emits_save_shear_catalogs
                   emits_tracer_reorderLenses emits_tracer_shoot)

lemma emits_catalog_loop: "emits (catalog_loop E ctx rs) processing"
  by (induction rs) (auto intro: emits_catalog_realization)

subsection \<open>A map run\<close>

lemma emits_collection_settings: "emits (collection_settings settings colls) P"
  unfolding collection_settings_def by (auto split: any_map_settings.splits)

lemma emits_map_prepare: "emits (map_prepare E p model colls mb cuts settings) setup_kind"
  unfolding map_prepare_def by (auto intro: emits_collection_settings)

lemma emits_map_add_lenses: "emits (map_add_lenses E ctx lines c) processing"
  by (induction lines arbitrary: c)
     (auto simp: Let_def split: option.splits intro!: emits_np_random_randint)

lemma emits_map_realization: "emits (map_realization E ctx r c) processing"
  unfolding map_realization_def
  by (auto simp: save_maps_def
           intro!: emits_map_add_lenses emits_tracer_reorderLenses emits_tracer_shoot)

lemma emits_map_loop: "emits (map_loop E ctx rs c) processing"
  by (induction rs arbitrary: c) (auto intro: emits_map_realization)

section \<open>The shape of a run\<close>

lemma run_outcome: "run m g0 = outcome m \<lparr>rng = g0, trace = []\<rparr>"
  by (simp add: run_def outcome_def)

lemma outcome_bindP:
  "outcome (bindP m k) w =
     (case m w of (Inl e, w') \<Rightarrow> (Inl e, trace w') | (Inr x, w') \<Rightarrow> outcome (k x) w')"
  by (simp add: outcome_def bindP_def split: prod.splits sum.splits)

lemma outcome_lift:
  "outcome (bindP (lift r) k) w =
     (case r of Inl e \<Rightarrow> (Inl e, trace w) | Inr x \<Rightarrow> outcome (k x) w)"
  by (simp add: outcome_bindP lift_def split: sum.splits)

lemma outcome_np_random_seed:
  "outcome (bindP (np_random_seed E n) k) w =
     (case random_seed E n of
        Inl e \<Rightarrow> (Inl e, trace w @ [RandomSeed n])
      | Inr g \<Rightarrow> outcome (k ()) \<lparr>rng = g, trace = trace w @ [RandomSeed n]\<rparr>)"
  by (cases w)
     (simp add: outcome_def np_random_seed_def bindP_def emit_def lift_def split: sum.splits)

lemma emits_outcomeD:
  assumes "emits m P" and "outcome m w = (res, tr)"
  shows "\<exists>es. tr = trace w @ es \<and> list_all P es"
proof -
  obtain r w' where mw: "m w = (r, w')" by (cases "m w")
  with assms(2) have tr: "tr = trace w'" by (simp add: outcome_def)
  from emits_traceD [OF assms(1) mw] tr show ?thesis by simp
qed

lemma fails_outcomeD: "fails m \<Longrightarrow> \<exists>e tr. outcome m w = (Inl e, tr)"
  unfolding fails_def outcome_def by (metis (mono_tags, lifting) case_prod_beta prod.collapse)

lemma fails_throw [simp, intro!]: "fails (throw e)"
  by (simp add: fails_def throw_def)

lemma fails_lift_Inl [simp, intro!]: "fails (lift (Inl e))"
  by (simp add: fails_def lift_def)


lemma fails_bindP_later: "(\<And>x. fails (k x)) \<Longrightarrow> fails (bindP m k)"
  unfolding fails_def bindP_def
  by (auto split: prod.splits sum.splits)

lemma run_simulatedCatalog:
  "run (simulatedCatalog E p s0 ident) g0 =
     (case catalog_handles E s0 ident of
        Inl e \<Rightarrow> (Inl e, [])
      | Inr (model, coll, cat, s) \<Rightarrow>
          (case random_seed E (worker_seed p (seed s)) of
             Inl e \<Rightarrow> (Inl e, [RandomSeed (worker_seed p (seed s))])
           | Inr g \<Rightarrow>
               outcome (bindP (catalog_prepare E p model coll cat s)
                          (\<lambda>(ctx, first_r, last_r). catalog_loop E ctx (py_range first_r last_r)))
                 \<lparr>rng = g, trace = [RandomSeed (worker_seed p (seed s))]\<rparr>))"
  unfolding run_outcome simulatedCatalog_def catalog_setup_def
  by (simp add: outcome_def bindP_def lift_def np_random_seed_def emit_def
           split: sum.splits prod.splits)

lemma run_singleRedshift:
  "run (singleRedshift E p s0 ident) g0 =
     (case map_resolve E s0 ident of
        Inl e \<Rightarrow> (Inl e, [])
      | Inr (model, colls, mb, cuts, s) \<Rightarrow>
          (case random_seed E (worker_seed p (any_seed s)) of
             Inl e \<Rightarrow> (Inl e, [RandomSeed (worker_seed p (any_seed s))])
           | Inr g \<Rightarrow>
               outcome (bindP (map_prepare E p model colls mb cuts s)
                          (\<lambda>(ctx, first_r, last_r).
                             map_loop E ctx (py_range first_r last_r) None))
                 \<lparr>rng = g, trace = [RandomSeed (worker_seed p (any_seed s))]\<rparr>))"
  unfolding run_outcome singleRedshift_def map_setup_def
  by (simp add: outcome_def bindP_def lift_def np_random_seed_def emit_def
           split: sum.splits prod.splits)

lemma not_seed_kinds:
  "setup_kind e \<Longrightarrow> \<not> is_seed e" "processing e \<Longrightarrow> \<not> is_seed e"
  by (simp add: setup_kind_def, cases e) simp_all

lemma emits_catalog_body:
  "emits (bindP (catalog_prepare E p model coll cat s)
            (\<lambda>(ctx, first_r, last_r). catalog_loop E ctx (py_range first_r last_r)))
     (\<lambda>e. \<not> is_seed e)"
  by (intro emits_bindP emits_case_prod
        emits_mono [OF emits_catalog_prepare] emits_mono [OF emits_catalog_loop])
     (simp_all add: not_seed_kinds)

lemma emits_map_body:
  "emits (bindP (map_prepare E p model colls mb cuts s)
            (\<lambda>(ctx, first_r, last_r). map_loop E ctx (py_range first_r last_r) None))
     (\<lambda>e. \<not> is_seed e)"
  by (intro emits_bindP emits_case_prod
        emits_mono [OF emits_map_prepare] emits_mono [OF emits_map_loop])
     (simp_all add: not_seed_kinds)

text \<open>
  Claim C5. In both scripts the first effect of a run is the seeding of numpy's
  generator with \<^verbatim>\<open>settings.seed + pool.rank\<close> (\<^verbatim>\<open>settings.seed\<close> without a pool), of
  the settings in force; nothing after it seeds the generator again, so every draw
  comes after the one seeding. The outcome and the trace of a run, hence the planes it
  selects, do not depend on the state the generator had before: two runs on the same
  settings, files and pool do the same.
\<close>

theorem C5_seeded_once:
  "run (singleRedshift E p ms ident) g0 = run (singleRedshift E p ms ident) g0'
   \<and> run (simulatedCatalog E p cs ident') g0 = run (simulatedCatalog E p cs ident') g0'
   \<and> (\<forall>res tr. run (singleRedshift E p ms ident) g0 = (res, tr) \<longrightarrow> tr \<noteq> [] \<longrightarrow>
        (\<exists>model colls mb cuts s rest.
            map_resolve E ms ident = Inr (model, colls, mb, cuts, s)
          \<and> tr = RandomSeed (case p of Some q \<Rightarrow> any_seed s + prank q | None \<Rightarrow> any_seed s) # rest
          \<and> list_all (\<lambda>e. \<not> is_seed e) rest))
   \<and> (\<forall>res tr. run (simulatedCatalog E p cs ident') g0 = (res, tr) \<longrightarrow> tr \<noteq> [] \<longrightarrow>
        (\<exists>model coll cat s rest.
            catalog_handles E cs ident' = Inr (model, coll, cat, s)
          \<and> tr = RandomSeed (case p of Some q \<Rightarrow> seed s + prank q | None \<Rightarrow> seed s) # rest
          \<and> list_all (\<lambda>e. \<not> is_seed e) rest))"
proof (intro conjI allI impI)
  show "run (singleRedshift E p ms ident) g0 = run (singleRedshift E p ms ident) g0'"
    by (simp add: run_singleRedshift)
  show "run (simulatedCatalog E p cs ident') g0 = run (simulatedCatalog E p cs ident') g0'"
    by (simp add: run_simulatedCatalog)
next
  fix res tr
  assume r: "run (singleRedshift E p ms ident) g0 = (res, tr)" and ne: "tr \<noteq> []"
  from r ne obtain model colls mb cuts s where
    h: "map_resolve E ms ident = Inr (model, colls, mb, cuts, s)"
    unfolding run_singleRedshift by (auto split: sum.splits)
  let ?n = "worker_seed p (any_seed s)"
  have "\<exists>rest. tr = RandomSeed ?n # rest \<and> list_all (\<lambda>e. \<not> is_seed e) rest"
  proof (cases "random_seed E ?n")
    case (Inl e)
    with r h show ?thesis by (auto simp: run_singleRedshift)
  next
    case (Inr g)
    with r h have "outcome (bindP (map_prepare E p model colls mb cuts s)
                      (\<lambda>(ctx, first_r, last_r). map_loop E ctx (py_range first_r last_r) None))
                 \<lparr>rng = g, trace = [RandomSeed ?n]\<rparr> = (res, tr)"
      by (simp add: run_singleRedshift)
    from emits_outcomeD [OF emits_map_body this] show ?thesis by auto
  qed
  with h show "\<exists>model colls mb cuts s rest.
            map_resolve E ms ident = Inr (model, colls, mb, cuts, s)
          \<and> tr = RandomSeed (case p of Some q \<Rightarrow> any_seed s + prank q | None \<Rightarrow> any_seed s) # rest
          \<and> list_all (\<lambda>e. \<not> is_seed e) rest"
    by (auto simp: worker_seed_def)
next
  fix res tr
  assume r: "run (simulatedCatalog E p cs ident') g0 = (res, tr)" and ne: "tr \<noteq> []"
  from r ne obtain model coll cat s where
    h: "catalog_handles E cs ident' = Inr (model, coll, cat, s)"
    unfolding run_simulatedCatalog by (auto split: sum.splits)
  let ?n = "worker_seed p (seed s)"
  have "\<exists>rest. tr = RandomSeed ?n # rest \<and> list_all (\<lambda>e. \<not> is_seed e) rest"
  proof (cases "random_seed E ?n")
    case (Inl e)
    with r h show ?thesis by (auto simp: run_simulatedCatalog)
  next
    case (Inr g)
    with r h have "outcome (bindP (catalog_prepare E p model coll cat s)
                      (\<lambda>(ctx, first_r, last_r). catalog_loop E ctx (py_range first_r last_r)))
                 \<lparr>rng = g, trace = [RandomSeed ?n]\<rparr> = (res, tr)"
      by (simp add: run_simulatedCatalog)
    from emits_outcomeD [OF emits_catalog_body this] show ?thesis by auto
  qed
  with h show "\<exists>model coll cat s rest.
            catalog_handles E cs ident' = Inr (model, coll, cat, s)
          \<and> tr = RandomSeed (case p of Some q \<Rightarrow> seed s + prank q | None \<Rightarrow> seed s) # rest
          \<and> list_all (\<lambda>e. \<not> is_seed e) rest"
    by (auto simp: worker_seed_def)
qed

section \<open>Seeding, on the small batch\<close>

lemma demo_map_resolve:
  "map_resolve demo_env (demo_map_settings n) ''Om0.3|512b240''
     = Inr (\<lparr>Mpc_over_h = ''Mpc/h''\<rparr>, [\<lparr>coll_storage = ''/storage''\<rparr>],
            \<lparr>mb_home = ''/home'', mb_storage = ''/maps''\<rparr>, [0], demo_map_settings n)"
  by (simp add: map_resolve_def map_handles_def override_settings_def demo_env_def
        demo_map_settings_def demo_ms_def bindE_def)

lemma demo_catalog_handles:
  "catalog_handles demo_env (demo_catalog_settings files t n) ''Om0.3|512b240''
     = Inr (\<lparr>Mpc_over_h = ''Mpc/h''\<rparr>, \<lparr>coll_storage = ''/storage''\<rparr>,
            \<lparr>cat_home = ''/home'', cat_storage = ''/catalogs''\<rparr>,
            demo_catalog_settings files t n)"
  by (simp add: catalog_handles_def demo_env_def demo_catalog_settings_def bindE_def
        unpack2_def demo_float_def)

theorem C5_seeded_once_witness:
  "run (simulatedCatalog demo_env None (demo_catalog_settings [''/in/a.fits''] 1 1)
          ''Om0.3|512b240'') 0
     = run (simulatedCatalog demo_env None (demo_catalog_settings [''/in/a.fits''] 1 1)
          ''Om0.3|512b240'') 99
   \<and> take 3 (snd (run (simulatedCatalog demo_env None
                        (demo_catalog_settings [''/in/a.fits''] 1 1) ''Om0.3|512b240'') 0))
       = [RandomSeed 5, CatalogCopy ''/catalogs/a.fits'', RandIntArray 1 1 2]
   \<and> (\<exists>rest. snd (run (simulatedCatalog demo_env None
                        (demo_catalog_settings [''/in/a.fits''] 1 1) ''Om0.3|512b240'') 0)
                = RandomSeed 5 # rest
            \<and> list_all (\<lambda>e. \<not> is_seed e) rest)
   \<and> (\<exists>rest. snd (run (singleRedshift demo_env (worker 1 1) (demo_map_settings 3)
                        ''Om0.3|512b240'') 0) = RandomSeed 6 # rest
            \<and> list_all (\<lambda>e. \<not> is_seed e) rest)"
proof -
  let ?cs = "demo_catalog_settings [''/in/a.fits''] 1 1"
  let ?m = "run (singleRedshift demo_env (worker 1 1) (demo_map_settings 3) ''Om0.3|512b240'') 0"
  let ?c = "run (simulatedCatalog demo_env None ?cs ''Om0.3|512b240'') 0"
  note C5 = C5_seeded_once [of demo_env "worker 1 1" "demo_map_settings 3" "''Om0.3|512b240''"
              0 99 ?cs "''Om0.3|512b240''"]
  note C5' = C5_seeded_once [of demo_env None "demo_map_settings 3" "''Om0.3|512b240''"
              0 99 ?cs "''Om0.3|512b240''"]
  have m: "take 1 (snd ?m) = [RandomSeed 6]"
    by code_simp
  have c: "take 3 (snd ?c) = [RandomSeed 5, CatalogCopy ''/catalogs/a.fits'', RandIntArray 1 1 2]"
    by code_simp
  have 1: "?c = run (simulatedCatalog demo_env None ?cs ''Om0.3|512b240'') 99"
    using C5' by blast
  have 2: "\<exists>rest. snd ?c = RandomSeed 5 # rest \<and> list_all (\<lambda>e. \<not> is_seed e) rest"
  proof -
    obtain res tr where rt: "?c = (res, tr)" by (cases ?c)
    with c have t: "take 3 tr = [RandomSeed 5, CatalogCopy ''/catalogs/a.fits'', RandIntArray 1 1 2]"
      by simp
    then have ne: "tr \<noteq> []" by auto
    from C5' [THEN conjunct2, THEN conjunct2, THEN conjunct2, rule_format, OF rt ne]
    obtain n rest where r: "tr = RandomSeed n # rest" "list_all (\<lambda>e. \<not> is_seed e) rest"
      by blast
    from t r(1) have "n = 5" by (simp add: eval_nat_numeral)
    with r rt show ?thesis by simp
  qed
  have 3: "\<exists>rest. snd ?m = RandomSeed 6 # rest \<and> list_all (\<lambda>e. \<not> is_seed e) rest"
  proof -
    obtain res tr where rt: "?m = (res, tr)" by (cases ?m)
    with m have t: "take 1 tr = [RandomSeed 6]" by simp
    then have ne: "tr \<noteq> []" by auto
    from C5 [THEN conjunct2, THEN conjunct2, THEN conjunct1, rule_format, OF rt ne]
    obtain n rest where r: "tr = RandomSeed n # rest" "list_all (\<lambda>e. \<not> is_seed e) rest"
      by blast
    from t r(1) have "n = 6" by simp
    with r rt show ?thesis by simp
  qed
  from 1 c 2 3 show ?thesis by blast
qed

section \<open>A number of realizations that the tasks cannot share\<close>

lemma task_range_uneven:
  "psize q + 1 \<noteq> 0 \<Longrightarrow> R mod (psize q + 1) \<noteq> 0 \<Longrightarrow> task_range (Some q) R = Inl AssertionError"
  by (simp add: task_range_def)

lemma lens_map_realizations_collection_settings:
  "collection_settings s colls w = (Inr st, w') \<Longrightarrow> lens_map_realizations st = any_realizations s"
  by (auto simp: collection_settings_def any_realizations_def single_collection_def
        ret_def throw_def split: any_map_settings.splits if_splits)

lemma fails_map_prepare:
  assumes "task_range p (any_realizations s) = Inl e"
  shows "fails (map_prepare E p model colls mb cuts s)"
  unfolding fails_def
proof
  fix w
  show "\<exists>e. fst (map_prepare E p model colls mb cuts s w) = Inl e"
  proof (cases "collection_settings s colls w")
    case (Pair r w')
    show ?thesis
    proof (cases r)
      case (Inl e')
      with Pair show ?thesis by (simp add: map_prepare_def bindP_def)
    next
      case (Inr st)
      with Pair have "lens_map_realizations st = any_realizations s"
        by (simp add: lens_map_realizations_collection_settings)
      with Pair Inr assms show ?thesis
        by (simp add: map_prepare_def bindP_def lift_def)
    qed
  qed
qed

lemma fails_lift_bind: "r = Inl e \<Longrightarrow> fails (bindP (lift r) k)"
  by (simp add: fails_def bindP_def lift_def)

lemma fails_catalog_prepare:
  assumes "task_range p (lens_catalog_realizations s) = Inl e"
  shows "fails (catalog_prepare E p model coll cat s)"
  unfolding catalog_prepare_def Let_def
  apply (rule fails_bindP_later)
  apply (rule fails_bindP_later)
  apply (rule fails_bindP_later)
  apply (rule fails_lift_bind [OF assms])
  done

lemma failed_outcome:
  assumes f: "fails m" and e: "emits m P" and init: "list_all P (trace w)"
  shows "\<exists>e tr. outcome (bindP m k) w = (Inl e, tr) \<and> list_all P tr"
proof -
  obtain r w' where mw: "m w = (r, w')" by (cases "m w")
  from f mw obtain e' where r: "r = Inl e'" unfolding fails_def by (metis fst_conv)
  from emits_traceD [OF e mw] init have "list_all P (trace w')" by auto
  with mw r show ?thesis by (simp add: outcome_bindP)
qed

lemma not_processing_setup: "setup_kind e \<Longrightarrow> \<not> processing e"
  by (simp add: setup_kind_def)

text \<open>
  Claim C8. With a pool of \<open>pool.size + 1\<close> tasks and a number of realizations, of the
  settings in force, that is not a multiple of it, the assertion of the partition fails
  (\<^verbatim>\<open>AssertionError\<close>), and a run of \<^verbatim>\<open>singleRedshift\<close> or of
  \<^verbatim>\<open>simulatedCatalog\<close> ends with an exception without having processed anything of a
  realization: no draw of a plane, no lens, no ray, no product.
\<close>

theorem C8_uneven_partition_fails:
  assumes "0 \<le> psize q"
    and "\<forall>model colls mb cuts s. map_resolve E ms ident = Inr (model, colls, mb, cuts, s)
           \<longrightarrow> any_realizations s mod (psize q + 1) \<noteq> 0"
    and "\<forall>model coll cat s. catalog_handles E cs ident' = Inr (model, coll, cat, s)
           \<longrightarrow> lens_catalog_realizations s mod (psize q + 1) \<noteq> 0"
  shows "(\<exists>e tr. run (singleRedshift E (Some q) ms ident) g0 = (Inl e, tr)
            \<and> list_all (\<lambda>ev. \<not> processing ev) tr)
       \<and> (\<exists>e tr. run (simulatedCatalog E (Some q) cs ident') g0 = (Inl e, tr)
            \<and> list_all (\<lambda>ev. \<not> processing ev) tr)
       \<and> (\<forall>R. R mod (psize q + 1) \<noteq> 0 \<longrightarrow> task_range (Some q) R = Inl AssertionError)"
proof (intro conjI allI impI)
  have W: "psize q + 1 \<noteq> 0" using assms(1) by simp
  show "task_range (Some q) R = Inl AssertionError" if "R mod (psize q + 1) \<noteq> 0" for R
    using W that by (rule task_range_uneven)
  show "\<exists>e tr. run (singleRedshift E (Some q) ms ident) g0 = (Inl e, tr)
            \<and> list_all (\<lambda>ev. \<not> processing ev) tr"
  proof (cases "map_resolve E ms ident")
    case (Inl e)
    then show ?thesis by (simp add: run_singleRedshift)
  next
    case (Inr h)
    obtain model colls mb cuts s where h: "h = (model, colls, mb, cuts, s)"
      by (cases h) auto
    have res: "map_resolve E ms ident = Inr (model, colls, mb, cuts, s)"
      using Inr h by simp
    let ?n = "worker_seed (Some q) (any_seed s)"
    show ?thesis
    proof (cases "random_seed E ?n")
      case (Inl e)
      with res show ?thesis by (simp add: run_singleRedshift)
    next
      case (Inr g)
      from assms(2) [rule_format, OF res] have "any_realizations s mod (psize q + 1) \<noteq> 0" .
      then have "task_range (Some q) (any_realizations s) = Inl AssertionError"
        using W by (intro task_range_uneven)
      then have f: "fails (map_prepare E (Some q) model colls mb cuts s)"
        by (rule fails_map_prepare)
      have e: "emits (map_prepare E (Some q) model colls mb cuts s) (\<lambda>ev. \<not> processing ev)"
        by (rule emits_mono [OF emits_map_prepare]) (rule not_processing_setup)
      show ?thesis
        using Inr res failed_outcome [OF f e, of "\<lparr>rng = g, trace = [RandomSeed ?n]\<rparr>"]
        by (simp add: run_singleRedshift)
    qed
  qed
  show "\<exists>e tr. run (simulatedCatalog E (Some q) cs ident') g0 = (Inl e, tr)
            \<and> list_all (\<lambda>ev. \<not> processing ev) tr"
  proof (cases "catalog_handles E cs ident'")
    case (Inl e)
    then show ?thesis by (simp add: run_simulatedCatalog)
  next
    case (Inr h)
    obtain model coll cat s where h: "h = (model, coll, cat, s)"
      by (cases h) auto
    have res: "catalog_handles E cs ident' = Inr (model, coll, cat, s)"
      using Inr h by simp
    let ?n = "worker_seed (Some q) (seed s)"
    show ?thesis
    proof (cases "random_seed E ?n")
      case (Inl e)
      with res show ?thesis by (simp add: run_simulatedCatalog)
    next
      case (Inr g)
      from assms(3) [rule_format, OF res] have "lens_catalog_realizations s mod (psize q + 1) \<noteq> 0" .
      then have "task_range (Some q) (lens_catalog_realizations s) = Inl AssertionError"
        using W by (intro task_range_uneven)
      then have f: "fails (catalog_prepare E (Some q) model coll cat s)"
        by (rule fails_catalog_prepare)
      have e: "emits (catalog_prepare E (Some q) model coll cat s) (\<lambda>ev. \<not> processing ev)"
        by (rule emits_mono [OF emits_catalog_prepare]) (rule not_processing_setup)
      show ?thesis
        using Inr res failed_outcome [OF f e, of "\<lparr>rng = g, trace = [RandomSeed ?n]\<rparr>"]
        by (simp add: run_simulatedCatalog)
    qed
  qed
qed

theorem C8_uneven_partition_fails_witness:
  "(0::int) \<le> psize \<lparr>psize = 1, prank = 0, is_master = True\<rparr>
   \<and> fst (run (singleRedshift demo_env (Some \<lparr>psize = 1, prank = 0, is_master = True\<rparr>)
              (demo_map_settings 3) ''Om0.3|512b240'') 0) = Inl AssertionError
   \<and> list_all (\<lambda>ev. \<not> processing ev)
        (snd (run (singleRedshift demo_env (Some \<lparr>psize = 1, prank = 0, is_master = True\<rparr>)
              (demo_map_settings 3) ''Om0.3|512b240'') 0))
   \<and> fst (run (simulatedCatalog demo_env (Some \<lparr>psize = 1, prank = 0, is_master = True\<rparr>)
              (demo_catalog_settings [''/in/a.fits'', ''/in/b.fits'', ''/in/c.fits''] 4 3)
              ''Om0.3|512b240'') 0) = Inl AssertionError
   \<and> list_all (\<lambda>ev. \<not> processing ev)
        (snd (run (simulatedCatalog demo_env (Some \<lparr>psize = 1, prank = 0, is_master = True\<rparr>)
              (demo_catalog_settings [''/in/a.fits'', ''/in/b.fits'', ''/in/c.fits''] 4 3)
              ''Om0.3|512b240'') 0))"
proof -
  let ?q = "\<lparr>psize = 1, prank = 0, is_master = True\<rparr>"
  let ?cs = "demo_catalog_settings [''/in/a.fits'', ''/in/b.fits'', ''/in/c.fits''] 4 3"
  have h1: "(0::int) \<le> psize ?q" by simp
  have h2: "\<forall>model colls mb cuts s.
      map_resolve demo_env (demo_map_settings 3) ''Om0.3|512b240''
        = Inr (model, colls, mb, cuts, s)
      \<longrightarrow> any_realizations s mod (psize ?q + 1) \<noteq> 0"
  proof (intro allI impI)
    fix model colls mb cuts s
    assume "map_resolve demo_env (demo_map_settings 3) ''Om0.3|512b240''
              = Inr (model, colls, mb, cuts, s)"
    then have "s = demo_map_settings 3" by (simp add: demo_map_resolve)
    then show "any_realizations s mod (psize ?q + 1) \<noteq> 0"
      by (simp add: any_realizations_def demo_map_settings_def demo_ms_def)
  qed
  have h3: "\<forall>model coll cat s.
      catalog_handles demo_env ?cs ''Om0.3|512b240'' = Inr (model, coll, cat, s)
      \<longrightarrow> lens_catalog_realizations s mod (psize ?q + 1) \<noteq> 0"
  proof (intro allI impI)
    fix model coll cat s
    assume "catalog_handles demo_env ?cs ''Om0.3|512b240'' = Inr (model, coll, cat, s)"
    then have "s = ?cs" by (simp add: demo_catalog_handles)
    then show "lens_catalog_realizations s mod (psize ?q + 1) \<noteq> 0"
      by (simp add: demo_catalog_settings_def)
  qed
  have m: "fst (run (singleRedshift demo_env (Some ?q) (demo_map_settings 3)
                       ''Om0.3|512b240'') 0) = Inl AssertionError"
    by code_simp
  have c: "fst (run (simulatedCatalog demo_env (Some ?q) ?cs ''Om0.3|512b240'') 0)
             = Inl AssertionError"
    by code_simp
  from C8_uneven_partition_fails [OF h1 h2 h3, of 0] m c h1 show ?thesis
    by auto
qed

section \<open>Galaxies, file by file\<close>





lemma foldl_add_sum: "foldl (+) (a::nat) xs = a + sum_list xs"
  by (induction xs arbitrary: a) simp_all


lemma galaxies_before_of_sum [simp]: "galaxies_before_of xs = Inr (sum_list xs)"
  by (cases xs) (simp_all add: galaxies_before_of_def reduce_add_def foldl_add_sum)






section \<open>The shear catalog, split again\<close>












section \<open>The number of galaxies\<close>










end
